theory Spec2Isabelle
  imports Main
begin

section \<open>Data model\<close>

text \<open>
  The editable tree is the tree of the rich-text editor: text leaves and elements.
  An element carries the fields that the translator writes: \<open>blockId\<close>, \<open>type\<close>, \<open>data\<close>,
  \<open>textId\<close> and \<open>children\<close>; a field that is \<open>undefined\<close> in the source is \<open>None\<close>.
  Indices and paths are JavaScript numbers that only take integer values, so they are
  modelled as \<open>int\<close> (\<open>findIndex\<close> returns \<open>-1\<close>).
\<close>

type_synonym Path = "int list"

type_synonym blockdata = "(string \<times> string) list"

datatype node =
    Text string "(string \<times> string) list"
  | Element "string option" string blockdata "string option" "node list"

text \<open>A run of a \<open>Y.Text\<close> delta: the inserted string and its attributes.\<close>

type_synonym YDelta = "string \<times> (string \<times> string) list"

record YBlock =
  block_id :: string
  block_type :: string
  block_parent :: string
  block_children :: string
  block_data :: string
  block_external_id :: "string option"

text \<open>
  The shared root: the page id, the block map, the map from children ids to the ordered
  child ids, and the text map.
\<close>

record YSharedRoot =
  page_id :: string
  blocks :: "string \<rightharpoonup> YBlock"
  children_map :: "string \<rightharpoonup> string list"
  text_map :: "string \<rightharpoonup> YDelta list"

record BasePoint =
  point_path :: Path
  point_offset :: int

record BaseRange =
  anchor :: BasePoint
  focus :: BasePoint

datatype log_level = WARN | ERROR

text \<open>
  The editor: its top-level children, the shared root it is bound to, its selection, and
  the messages written by \<open>Log.warn\<close>, \<open>Log.error\<close> and \<open>console.error\<close> (the
  \<open>Log.debug\<close> and \<open>Log.trace\<close> calls have no effect on either tree and are left out).
\<close>

record YjsEditor =
  children :: "node list"
  sharedRoot :: YSharedRoot
  selection :: "BaseRange option"
  logs :: "(log_level \<times> string) list"

text \<open>A thrown JavaScript exception, with its message.\<close>

datatype thrown = Thrown string

definition log_msg :: "log_level \<Rightarrow> string \<Rightarrow> YjsEditor \<Rightarrow> YjsEditor" where
  "log_msg l m editor = editor\<lparr>logs := logs editor @ [(l, m)]\<rparr>"

definition YjsEditorKey_text :: string where
  "YjsEditorKey_text = ''text''"

section \<open>The operations of the editor library\<close>

text \<open>
  \<open>xs.splice(i, 0, x)\<close> and \<open>xs.splice(i, 1)\<close>: a negative start counts from the end, and
  the start is clamped to the bounds of the array.
\<close>

definition splice_start :: "int \<Rightarrow> 'a list \<Rightarrow> nat" where
  "splice_start i xs =
     (let n = int (length xs) in nat (if i < 0 then max (n + i) 0 else min i n))"

definition splice_insert :: "int \<Rightarrow> 'a \<Rightarrow> 'a list \<Rightarrow> 'a list" where
  "splice_insert i x xs = take (splice_start i xs) xs @ [x] @ drop (splice_start i xs) xs"

definition splice_remove :: "int \<Rightarrow> 'a list \<Rightarrow> 'a list" where
  "splice_remove i xs = take (splice_start i xs) xs @ drop (Suc (splice_start i xs)) xs"

text \<open>
  \<open>modify_children ns p f\<close> walks the path \<open>p\<close> from the children \<open>ns\<close> of the root as
  \<open>Node.get\<close> does, and replaces the children of the node it reaches by the result of
  \<open>f\<close>. \<open>Node.get\<close> throws when a step leaves the tree or goes through a text leaf.
\<close>

fun modify_children ::
  "node list \<Rightarrow> Path \<Rightarrow> (node list \<Rightarrow> thrown + node list) \<Rightarrow> thrown + node list" where
  "modify_children ns [] f = f ns"
| "modify_children ns (i # p) f =
     (if i < 0 \<or> int (length ns) \<le> i then Inl (Thrown ''Cannot find a descendant at path'')
      else (case ns ! nat i of
              Text s a \<Rightarrow> Inl (Thrown ''Cannot get the parent of path'')
            | Element b t d x cs \<Rightarrow>
                (case modify_children cs p f of
                   Inl e \<Rightarrow> Inl e
                 | Inr cs' \<Rightarrow> Inr (ns[nat i := Element b t d x cs']))))"

text \<open>The operation \<open>insert_node\<close> of \<open>editor.apply\<close>.\<close>

definition insert_node :: "node list \<Rightarrow> Path \<Rightarrow> node \<Rightarrow> thrown + node list" where
  "insert_node ns p nd =
     (if p = [] then Inl (Thrown ''Cannot get the parent path of the root path'')
      else modify_children ns (butlast p)
             (\<lambda>cs. if int (length cs) < last p
                   then Inl (Thrown ''Cannot apply an insert_node operation past the end of the node'')
                   else Inr (splice_insert (last p) nd cs)))"

text \<open>The operation \<open>remove_node\<close> of \<open>editor.apply\<close>.\<close>

definition remove_node :: "node list \<Rightarrow> Path \<Rightarrow> thrown + node list" where
  "remove_node ns p =
     (if p = [] then Inl (Thrown ''Cannot get the parent path of the root path'')
      else modify_children ns (butlast p) (\<lambda>cs. Inr (splice_remove (last p) cs)))"

text \<open>
  The operation \<open>set_node\<close> of \<open>editor.apply\<close> with \<open>newProperties = {data}\<close>. The paths
  passed by the translator come from an element match; a text leaf has no \<open>data\<close> in this
  model and is left as it is.
\<close>

definition set_node_data :: "node list \<Rightarrow> Path \<Rightarrow> blockdata \<Rightarrow> thrown + node list" where
  "set_node_data ns p newData =
     (if p = [] then Inl (Thrown ''Cannot set properties on the root node'')
      else modify_children ns (butlast p)
             (\<lambda>cs. if last p < 0 \<or> int (length cs) \<le> last p
                   then Inl (Thrown ''Cannot find a descendant at path'')
                   else (case cs ! nat (last p) of
                           Text s a \<Rightarrow> Inr cs
                         | Element b t d x gs \<Rightarrow>
                             Inr (cs[nat (last p) := Element b t newData x gs]))))"

text \<open>
  An operation also moves the selection of the editor. \<open>Path.compare\<close>,
  \<open>Path.endsBefore\<close>, \<open>Path.isAncestor\<close>, \<open>Path.common\<close> and \<open>Path.hasPrevious\<close>:
\<close>

fun path_compare :: "Path \<Rightarrow> Path \<Rightarrow> int" where
  "path_compare (a # as) (b # bs) =
     (if a < b then -1 else if b < a then 1 else path_compare as bs)"
| "path_compare as bs = 0"

definition path_endsBefore :: "Path \<Rightarrow> Path \<Rightarrow> bool" where
  "path_endsBefore p another =
     (p \<noteq> [] \<and> length p \<le> length another \<and>
      butlast p = take (length p - 1) another \<and> last p < another ! (length p - 1))"

definition path_isAncestor :: "Path \<Rightarrow> Path \<Rightarrow> bool" where
  "path_isAncestor p another = (length p < length another \<and> path_compare p another = 0)"

fun path_common :: "Path \<Rightarrow> Path \<Rightarrow> Path" where
  "path_common (a # as) (b # bs) = (if a = b then a # path_common as bs else [])"
| "path_common as bs = []"

definition path_hasPrevious :: "Path \<Rightarrow> bool" where
  "path_hasPrevious p = (p \<noteq> [] \<and> 0 < last p)"

text \<open>
  \<open>Point.transform\<close> for \<open>insert_node\<close>: a point at, after or below the place of the
  insertion moves one step to the right at the depth of the operation.
\<close>

definition path_transform_insert :: "Path \<Rightarrow> Path \<Rightarrow> Path" where
  "path_transform_insert op p =
     (if p = [] then p
      else if op = p \<or> path_endsBefore op p \<or> path_isAncestor op p
      then p[length op - 1 := p ! (length op - 1) + 1]
      else p)"

definition selection_after_insert :: "Path \<Rightarrow> BaseRange option \<Rightarrow> BaseRange option" where
  "selection_after_insert op sel =
     map_option
       (\<lambda>r. \<lparr>anchor = (anchor r)\<lparr>point_path := path_transform_insert op (point_path (anchor r))\<rparr>,
              focus = (focus r)\<lparr>point_path := path_transform_insert op (point_path (focus r))\<rparr>\<rparr>)
       sel"

text \<open>
  \<open>Point.transform\<close> for \<open>remove_node\<close>: a point in the removed node has no image; a
  point after it moves one step to the left at the depth of the operation.
\<close>

definition point_transform_remove :: "Path \<Rightarrow> BasePoint \<Rightarrow> BasePoint option" where
  "point_transform_remove op pt =
     (let p = point_path pt
      in if op = p \<or> path_isAncestor op p then None
         else Some (pt\<lparr>point_path :=
                      (if p \<noteq> [] \<and> path_endsBefore op p
                       then p[length op - 1 := p ! (length op - 1) - 1] else p)\<rparr>))"

text \<open>\<open>Node.texts\<close>: the text leaves below the root with their paths, in document order.\<close>

function texts_of :: "Path \<Rightarrow> nat \<Rightarrow> node list \<Rightarrow> (string \<times> Path) list" where
  "texts_of pre i [] = []"
| "texts_of pre i (Text s a # ns) = (s, pre @ [int i]) # texts_of pre (Suc i) ns"
| "texts_of pre i (Element b t d x cs # ns) =
     texts_of (pre @ [int i]) 0 cs @ texts_of pre (Suc i) ns"
  by pat_completeness auto
termination
  by (relation "measure (\<lambda>(pre, i, ns). size_list size ns)") auto

text \<open>
  A point that was in the removed node goes to the end of the text before the removed
  place or to the start of the text after it; \<open>None\<close> when the tree has no text left.
  The texts are those of the tree after the removal.
\<close>

definition removed_point_fallback :: "node list \<Rightarrow> Path \<Rightarrow> BasePoint option" where
  "removed_point_fallback ns op =
     (let ts = texts_of [] 0 ns;
          before = takeWhile (\<lambda>t. path_compare (snd t) op = -1) ts;
          rest = dropWhile (\<lambda>t. path_compare (snd t) op = -1) ts;
          prev = (if before = [] then None else Some (last before));
          next = (case rest of [] \<Rightarrow> None | t # ts' \<Rightarrow> Some t);
          preferNext =
            (case prev of
               None \<Rightarrow> False
             | Some pv \<Rightarrow>
                 (case next of
                    None \<Rightarrow> False
                  | Some nx \<Rightarrow>
                      if snd nx = op then \<not> path_hasPrevious (snd nx)
                      else length (path_common (snd pv) op) < length (path_common (snd nx) op)))
      in if prev \<noteq> None \<and> \<not> preferNext then
           map_option (\<lambda>pv. \<lparr>point_path = snd pv, point_offset = int (length (fst pv))\<rparr>) prev
         else map_option (\<lambda>nx. \<lparr>point_path = snd nx, point_offset = 0\<rparr>) next)"

definition point_after_remove :: "node list \<Rightarrow> Path \<Rightarrow> BasePoint \<Rightarrow> BasePoint option" where
  "point_after_remove ns op pt =
     (case point_transform_remove op pt of
        Some pt' \<Rightarrow> Some pt'
      | None \<Rightarrow> removed_point_fallback ns op)"

text \<open>Anchor first, then focus; when one of them has no place left, the selection is \<open>null\<close>.\<close>

definition selection_after_remove :: "node list \<Rightarrow> Path \<Rightarrow> BaseRange option \<Rightarrow> BaseRange option" where
  "selection_after_remove ns op sel =
     (case sel of
        None \<Rightarrow> None
      | Some r \<Rightarrow>
          (case point_after_remove ns op (anchor r) of
             None \<Rightarrow> None
           | Some a \<Rightarrow>
               (case point_after_remove ns op (focus r) of
                  None \<Rightarrow> None
                | Some f \<Rightarrow> Some \<lparr>anchor = a, focus = f\<rparr>)))"

text \<open>
  \<open>editor.apply\<close> of an \<open>insert_node\<close> and of a \<open>remove_node\<close> operation: the tree and
  the selection. The normalisation that the editor runs after its operations is not part
  of the translator and is left out.
\<close>

definition apply_insert_node :: "YjsEditor \<Rightarrow> Path \<Rightarrow> node \<Rightarrow> thrown + YjsEditor" where
  "apply_insert_node editor p nd =
     (case insert_node (children editor) p nd of
        Inl e \<Rightarrow> Inl e
      | Inr ns \<Rightarrow>
          Inr (editor\<lparr>children := ns, selection := selection_after_insert p (selection editor)\<rparr>))"

definition apply_remove_node :: "YjsEditor \<Rightarrow> Path \<Rightarrow> thrown + YjsEditor" where
  "apply_remove_node editor p =
     (case remove_node (children editor) p of
        Inl e \<Rightarrow> Inl e
      | Inr ns \<Rightarrow>
          Inr (editor\<lparr>children := ns, selection := selection_after_remove ns p (selection editor)\<rparr>))"

text \<open>
  \<open>editor.nodes({at: [], match: n => Element.isElement(n) && n.blockId === key})\<close>
  enumerates the tree in document order; the translator takes the first entry, a pair of
  the node and its path. \<open>findEntry key i ns\<close> is the first element with that block id
  among \<open>ns\<close> and their descendants, \<open>i\<close> being the index of the head of \<open>ns\<close> in
  its parent.
\<close>

function findEntry :: "string \<Rightarrow> nat \<Rightarrow> node list \<Rightarrow> (node \<times> Path) option" where
  "findEntry key i [] = None"
| "findEntry key i (Text s a # ns) = findEntry key (Suc i) ns"
| "findEntry key i (Element b t d x cs # ns) =
     (if b = Some key then Some (Element b t d x cs, [int i])
      else (case findEntry key 0 cs of
              Some (n, p) \<Rightarrow> Some (n, int i # p)
            | None \<Rightarrow> findEntry key (Suc i) ns))"
  by pat_completeness auto
termination
  by (relation "measure (\<lambda>(key, i, ns). size_list size ns)") auto

text \<open>
  Modelled from the spec: \<open>findSlateEntryByBlockId\<close> of \<open>utils/editor\<close> is not among
  the sources; it locates the node in the editable tree by block id, which is the query
  that \<open>handleNewBlock\<close> and \<open>handleDeleteNode\<close> run from the root.
\<close>

definition findSlateEntryByBlockId :: "YjsEditor \<Rightarrow> string \<Rightarrow> (node \<times> Path) option" where
  "findSlateEntryByBlockId editor blockId = findEntry blockId 0 (children editor)"

text \<open>The children of an element; a text leaf has none.\<close>

fun node_children :: "node \<Rightarrow> node list" where
  "node_children (Text s a) = []"
| "node_children (Element b t d x cs) = cs"

fun node_blockId :: "node \<Rightarrow> string option" where
  "node_blockId (Text s a) = None"
| "node_blockId (Element b t d x cs) = b"

fun node_data :: "node \<Rightarrow> blockdata" where
  "node_data (Text s a) = []"
| "node_data (Element b t d x cs) = d"

text \<open>\<open>Node.get\<close>: the node at a path below the root's children.\<close>

fun node_at :: "node list \<Rightarrow> Path \<Rightarrow> node option" where
  "node_at ns [] = None"
| "node_at ns [i] = (if i < 0 \<or> int (length ns) \<le> i then None else Some (ns ! nat i))"
| "node_at ns (i # p) =
     (if i < 0 \<or> int (length ns) \<le> i then None
      else (case ns ! nat i of Text s a \<Rightarrow> None | Element b t d x cs \<Rightarrow> node_at cs p))"

section \<open>The shared tree\<close>

text \<open>
  Modelled from the spec: the accessors \<open>getBlock\<close>, \<open>getPageId\<close>,
  \<open>getChildrenArray\<close> and \<open>getText\<close> of \<open>utils/yjs\<close> are not among the sources.
  They read the block map, the page id, the child order stored under a children id, and
  the text stored under a text id; a key that the map does not hold gives \<open>undefined\<close>,
  here \<open>None\<close>.
\<close>

definition getBlock :: "string \<Rightarrow> YSharedRoot \<Rightarrow> YBlock option" where
  "getBlock blockId root = blocks root blockId"

definition getPageId :: "YSharedRoot \<Rightarrow> string" where
  "getPageId root = page_id root"

definition getChildrenArray :: "string \<Rightarrow> YSharedRoot \<Rightarrow> string list option" where
  "getChildrenArray childrenId root = children_map root childrenId"

definition getText :: "string option \<Rightarrow> YSharedRoot \<Rightarrow> YDelta list option" where
  "getText textId root = (case textId of None \<Rightarrow> None | Some t \<Rightarrow> text_map root t)"

text \<open>\<open>xs.findIndex(child => child === key)\<close>: the first index, or \<open>-1\<close>.\<close>

fun findIndex :: "string \<Rightarrow> string list \<Rightarrow> int" where
  "findIndex key [] = -1"
| "findIndex key (c # cs) =
     (if c = key then 0 else (let r = findIndex key cs in if r < 0 then -1 else r + 1))"

section \<open>The tree translator\<close>

record YBlockChange =
  action :: string
  oldValue :: "YBlock option"

record YEvent =
  event_path :: "string list"
  keysChanged :: "string list"
  keys :: "string \<rightharpoonup> YBlockChange"
  target :: YBlock

text \<open>
  The conversions that the translator imports from modules that are not among the
  sources are parameters of the model: the conversion of one delta run to text
  nodes, the parser of a block's data string, and the application of a text event. So are
  the names of the methods that the arrays of the running JavaScript engine inherit.
\<close>

record helpers =
  deltaInsertToSlateNode :: "YDelta \<Rightarrow> node list"
  dataStringTOJson :: "string \<Rightarrow> blockdata"
  applyTextYEvent :: "YjsEditor \<Rightarrow> string \<Rightarrow> YEvent \<Rightarrow> thrown + YjsEditor"
  arrayPrototypeNames :: "string list"

text \<open>
  The cache of paths \<open>keyPath\<close> is a plain JavaScript object. Reading a name that is
  not an own property goes to the prototype: for a new object that is
  \<open>Object.prototype\<close>, whose names give functions (and \<open>__proto__\<close> the prototype
  itself): truthy values that cannot be spread. Writing the name \<open>__proto__\<close> does not
  create a property but makes the written array the prototype of the object; then
  \<open>__proto__\<close> reads as that array, and the other names that are not own properties are
  read from the array: its length, its elements under their decimal indices, and the
  names that arrays inherit.
\<close>

datatype js_lookup = JsUndefined | JsFalsy | JsNotIterable | JsPath Path

definition Object_prototype_names :: "string list" where
  "Object_prototype_names =
     [''constructor'', ''__defineGetter__'', ''__defineSetter__'', ''hasOwnProperty'',
      ''__lookupGetter__'', ''__lookupSetter__'', ''isPrototypeOf'', ''propertyIsEnumerable'',
      ''toString'', ''valueOf'', ''__proto__'', ''toLocaleString'']"

record KeyPath =
  own_paths :: "string \<rightharpoonup> Path"
  proto_array :: "Path option"

definition emptyKeyPath :: KeyPath where
  "emptyKeyPath = \<lparr>own_paths = Map.empty, proto_array = None\<rparr>"

function decimal :: "nat \<Rightarrow> string" where
  "decimal n =
     (if n < 10 then [char_of (48 + n)]
      else decimal (n div 10) @ [char_of (48 + n mod 10)])"
  by pat_completeness auto
termination
  by (relation "measure (\<lambda>n. n)") auto

declare decimal.simps [simp del]

definition array_index :: "Path \<Rightarrow> string \<Rightarrow> nat option" where
  "array_index arr k = find (\<lambda>i. decimal i = k) [0..<length arr]"

definition keyPath_get :: "helpers \<Rightarrow> KeyPath \<Rightarrow> string \<Rightarrow> js_lookup" where
  "keyPath_get h keyPath k =
     (case own_paths keyPath k of
        Some p \<Rightarrow> JsPath p
      | None \<Rightarrow>
          (case proto_array keyPath of
             None \<Rightarrow> if k \<in> set Object_prototype_names then JsNotIterable else JsUndefined
           | Some arr \<Rightarrow>
               if k = ''__proto__'' then JsPath arr
               else if k = ''length'' then (if arr = [] then JsFalsy else JsNotIterable)
               else (case array_index arr k of
                       Some i \<Rightarrow> if arr ! i = 0 then JsFalsy else JsNotIterable
                     | None \<Rightarrow>
                         if k \<in> set (arrayPrototypeNames h) \<or> k \<in> set Object_prototype_names
                         then JsNotIterable else JsUndefined)))"

definition keyPath_set :: "KeyPath \<Rightarrow> string \<Rightarrow> Path \<Rightarrow> KeyPath" where
  "keyPath_set keyPath k p =
     (if k = ''__proto__'' then keyPath\<lparr>proto_array := Some p\<rparr>
      else keyPath\<lparr>own_paths := (own_paths keyPath)(k \<mapsto> p)\<rparr>)"

text \<open>
  Modelled from the spec: \<open>blockToSlateNode\<close> of \<open>utils/convert\<close> is not among the
  sources. An editable node mirrors its block and is tagged with the block id; the
  \<open>children\<close> field it returns is overwritten by \<open>handleNewBlock\<close>.
\<close>

definition blockToSlateNode :: "helpers \<Rightarrow> YBlock \<Rightarrow> node list \<Rightarrow> node" where
  "blockToSlateNode h block cs =
     Element (Some (block_id block)) (block_type block)
       (dataStringTOJson h (block_data block)) None cs"

definition applyUpdateBlockYEvent :: "helpers \<Rightarrow> YjsEditor \<Rightarrow> string \<Rightarrow> YEvent \<Rightarrow> YjsEditor" where
  "applyUpdateBlockYEvent h editor blockId event =
     (let block = target event;
          newData = dataStringTOJson h (block_data block)
      in (case findSlateEntryByBlockId editor blockId of
            None \<Rightarrow> log_msg ERROR ''Block node not found in Slate editor'' editor
          | Some (node, path) \<Rightarrow>
              (case set_node_data (children editor) path newData of
                 Inr ns \<Rightarrow> editor\<lparr>children := ns\<rparr>
               | Inl e \<Rightarrow> log_msg ERROR ''Failed to update block data'' editor)))"

definition parentHasTextNode :: "node list \<Rightarrow> bool" where
  "parentHasTextNode silblings =
     (if length silblings = 0 then True
      else (case silblings ! 0 of
              Text s a \<Rightarrow> False
            | Element b t d x cs \<Rightarrow> t = YjsEditorKey_text))"

text \<open>The text element built from the block's text, when the text exists.\<close>

definition newTextNode :: "helpers \<Rightarrow> YSharedRoot \<Rightarrow> string option \<Rightarrow> node option" where
  "newTextNode h root textId =
     (case getText textId root of
        None \<Rightarrow> None
      | Some delta \<Rightarrow>
          (let slateDelta = concat (map (deltaInsertToSlateNode h) delta);
               slateDelta' = (if length slateDelta = 0 then slateDelta @ [Text [] []] else slateDelta)
           in Some (Element None YjsEditorKey_text [] textId slateDelta')))"

text \<open>
  The node that \<open>handleNewBlock\<close> inserts: the converted block, with the text element
  as its only child when the text exists and no child otherwise.
\<close>

definition newBlockNode :: "helpers \<Rightarrow> YSharedRoot \<Rightarrow> YBlock \<Rightarrow> node" where
  "newBlockNode h root block =
     blockToSlateNode h block
       (case newTextNode h root (block_external_id block) of Some tn \<Rightarrow> [tn] | None \<Rightarrow> [])"

text \<open>
  The insertion path of a new block. \<open>Inr None\<close> is the early return of the source when
  the parent is neither in the editor nor in the cache of paths; \<open>Inl\<close> is the
  \<open>TypeError\<close> of spreading a cached value that is not iterable, which is thrown outside
  the \<open>try\<close> block.
\<close>

definition newBlockPath ::
  "helpers \<Rightarrow> YjsEditor \<Rightarrow> KeyPath \<Rightarrow> string \<Rightarrow> string \<Rightarrow> int \<Rightarrow> thrown + Path option" where
  "newBlockPath h editor keyPath parentId pageId index =
     (if parentId \<noteq> pageId then
        (case findEntry parentId 0 (children editor) of
           None \<Rightarrow>
             (case keyPath_get h keyPath parentId of
                JsPath cached \<Rightarrow> Inr (Some (cached @ [index + 1]))
              | JsNotIterable \<Rightarrow> Inl (Thrown ''TypeError: keyPath[parentId] is not iterable'')
              | JsFalsy \<Rightarrow> Inr None
              | JsUndefined \<Rightarrow> Inr None)
         | Some parentEntry \<Rightarrow>
             (let silblings = node_children (fst parentEntry);
                  childrenLength = int (length silblings)
              in Inr (Some (snd parentEntry @
                        [min (index + (if parentHasTextNode silblings then 1 else 0)) childrenLength]))))
      else Inr (Some [index]))"

text \<open>
  \<open>handleNewBlock\<close>. The read of \<open>parentChildren.toArray()\<close> is outside the
  \<open>try\<close> block, so a missing children array is an exception that escapes; an exception
  of \<open>editor.apply\<close> is caught and logged.
\<close>

definition handleNewBlock ::
  "helpers \<Rightarrow> YjsEditor \<Rightarrow> string \<Rightarrow> KeyPath \<Rightarrow> thrown + (YjsEditor \<times> KeyPath)" where
  "handleNewBlock h editor key keyPath =
     (case getBlock key (sharedRoot editor) of
        None \<Rightarrow> Inr (log_msg ERROR ''Block not found in Yjs'' editor, keyPath)
      | Some block \<Rightarrow>
          (let parentId = block_parent block;
               pageId = getPageId (sharedRoot editor)
           in (case getBlock parentId (sharedRoot editor) of
                 None \<Rightarrow> Inr (log_msg ERROR ''Parent block not found'' editor, keyPath)
               | Some parent \<Rightarrow>
                   (case getChildrenArray (block_children parent) (sharedRoot editor) of
                      None \<Rightarrow> Inl (Thrown ''TypeError: cannot read toArray of undefined'')
                    | Some parentChildren \<Rightarrow>
                        (let index = findIndex key parentChildren
                         in (case newBlockPath h editor keyPath parentId pageId index of
                               Inl e \<Rightarrow> Inl e
                             | Inr None \<Rightarrow>
                                 Inr (log_msg ERROR ''Parent block not found in Slate editor'' editor,
                                      keyPath)
                             | Inr (Some ipath) \<Rightarrow>
                                 (case apply_insert_node editor ipath
                                         (newBlockNode h (sharedRoot editor) block)
                                  of
                                    Inr editor' \<Rightarrow> Inr (editor', keyPath_set keyPath key ipath)
                                  | Inl e \<Rightarrow>
                                      Inr (log_msg ERROR ''Failed to insert block'' editor,
                                           keyPath))))))))"

definition handleDeleteNode :: "YjsEditor \<Rightarrow> string \<Rightarrow> YjsEditor" where
  "handleDeleteNode editor key =
     (case findEntry key 0 (children editor) of
        None \<Rightarrow> log_msg ERROR ''Block not found for deletion'' editor
      | Some (node, npath) \<Rightarrow>
          (case apply_remove_node editor npath of
             Inr editor' \<Rightarrow> editor'
           | Inl e \<Rightarrow> log_msg ERROR ''Failed to delete block'' editor))"

record update =
  u_key :: string
  u_action :: string
  u_value :: YBlockChange

text \<open>The loop over \<open>keysChanged\<close> that fills \<open>updates\<close>.\<close>

fun collect_updates ::
  "(string \<rightharpoonup> YBlockChange) \<Rightarrow> string list \<Rightarrow> YjsEditor \<Rightarrow> update list \<times> YjsEditor" where
  "collect_updates ks [] editor = ([], editor)"
| "collect_updates ks (k # rest) editor =
     (case ks k of
        None \<Rightarrow> collect_updates ks rest (log_msg WARN ''No value found for key'' editor)
      | Some v \<Rightarrow>
          (case collect_updates ks rest editor of
             (us, editor') \<Rightarrow> (\<lparr>u_key = k, u_action = action v, u_value = v\<rparr> # us, editor')))"

text \<open>The comparator passed to \<open>updates.sort\<close>.\<close>

definition compare_updates :: "update \<Rightarrow> update \<Rightarrow> int" where
  "compare_updates a b =
     (if u_action a = ''delete'' \<and> u_action b \<noteq> ''delete'' then -1
      else if u_action a \<noteq> ''delete'' \<and> u_action b = ''delete'' then 1
      else 0)"

text \<open>
  \<open>Array.prototype.sort\<close> is a stable comparison sort; it is modelled by the stable
  insertion sort with the comparator.
\<close>

fun insert_sorted :: "('a \<Rightarrow> 'a \<Rightarrow> int) \<Rightarrow> 'a \<Rightarrow> 'a list \<Rightarrow> 'a list" where
  "insert_sorted cmp x [] = [x]"
| "insert_sorted cmp x (y # ys) =
     (if cmp x y \<le> 0 then x # y # ys else y # insert_sorted cmp x ys)"

definition array_sort :: "('a \<Rightarrow> 'a \<Rightarrow> int) \<Rightarrow> 'a list \<Rightarrow> 'a list" where
  "array_sort cmp xs = foldr (insert_sorted cmp) xs []"

text \<open>
  The loop \<open>updates.forEach\<close>: an exception that escapes a handler ends the loop. The
  branch of the action \<open>update\<close> is empty in the source.
\<close>

fun apply_updates ::
  "helpers \<Rightarrow> update list \<Rightarrow> YjsEditor \<times> KeyPath \<Rightarrow> thrown + (YjsEditor \<times> KeyPath)" where
  "apply_updates h [] st = Inr st"
| "apply_updates h (u # us) (editor, keyPath) =
     (if u_action u = ''add'' then
        (case handleNewBlock h editor (u_key u) keyPath of
           Inl e \<Rightarrow> Inl e
         | Inr st' \<Rightarrow> apply_updates h us st')
      else if u_action u = ''delete'' then
        apply_updates h us (handleDeleteNode editor (u_key u), keyPath)
      else if u_action u = ''update'' then
        apply_updates h us (editor, keyPath)
      else apply_updates h us (editor, keyPath))"

definition applyBlocksYEvent :: "helpers \<Rightarrow> YjsEditor \<Rightarrow> YEvent \<Rightarrow> thrown + YjsEditor" where
  "applyBlocksYEvent h editor event =
     (case collect_updates (keys event) (keysChanged event) editor of
        (updates, editor') \<Rightarrow>
          (case apply_updates h (array_sort compare_updates updates) (editor', emptyKeyPath) of
             Inl e \<Rightarrow> Inl e
           | Inr (editor'', keyPath) \<Rightarrow> Inr editor''))"

text \<open>One round of the loop of \<open>translateYEvents\<close>: three tests on the event's path.\<close>

definition translateYEvent :: "helpers \<Rightarrow> YjsEditor \<Rightarrow> YEvent \<Rightarrow> thrown + YjsEditor" where
  "translateYEvent h editor event =
     (let p = event_path event in
      (case (if p = [''document'', ''blocks''] then applyBlocksYEvent h editor event
             else Inr editor) of
         Inl e \<Rightarrow> Inl e
       | Inr e1 \<Rightarrow>
           (let e2 = (if length p = 3 \<and> take 2 p = [''document'', ''blocks'']
                      then applyUpdateBlockYEvent h e1 (p ! 2) event else e1)
            in if length p = 4 \<and> take 3 p = [''document'', ''meta'', ''text_map'']
               then applyTextYEvent h e2 (p ! 3) event else Inr e2)))"

fun translateYEvents :: "helpers \<Rightarrow> YjsEditor \<Rightarrow> YEvent list \<Rightarrow> thrown + YjsEditor" where
  "translateYEvents h editor [] = Inr editor"
| "translateYEvents h editor (event # events) =
     (case translateYEvent h editor event of
        Inl e \<Rightarrow> Inl e
      | Inr editor' \<Rightarrow> translateYEvents h editor' events)"

section \<open>The structural commands\<close>

text \<open>
  Modelled from the spec: the values of the enumeration \<open>BlockType\<close> that the commands
  test; the module that declares them is not among the sources.
\<close>

definition BlockType_Paragraph :: string where
  "BlockType_Paragraph = ''paragraph''"

definition BlockType_QuoteBlock :: string where
  "BlockType_QuoteBlock = ''quote''"

definition BlockType_Page :: string where
  "BlockType_Page = ''page''"

text \<open>
  The functions and the constant that the commands import from modules that are not among
  the sources, and the queries of the editor library, are parameters of the model. A
  handler works on both trees, so it maps an editor to an editor, or throws.
\<close>

record commands =
  LIST_BLOCK_TYPES :: "string list"
  getBlockEntry :: "YjsEditor \<Rightarrow> BasePoint \<Rightarrow> (node \<times> Path) option"
  handleNonParagraphBlockBackspaceAndEnterWithTxn ::
    "YjsEditor \<Rightarrow> YBlock \<Rightarrow> BasePoint \<Rightarrow> thrown + YjsEditor"
  handleLiftBlockOnBackspaceAndEnterWithTxn ::
    "YjsEditor \<Rightarrow> YBlock \<Rightarrow> BasePoint \<Rightarrow> thrown + (bool \<times> YjsEditor)"
  handleMergeBlockBackwardWithTxn :: "YjsEditor \<Rightarrow> node \<Rightarrow> BasePoint \<Rightarrow> thrown + YjsEditor"
  removeRangeWithTxn :: "YjsEditor \<Rightarrow> BaseRange \<Rightarrow> thrown + YjsEditor"
  editor_string :: "YjsEditor \<Rightarrow> Path \<Rightarrow> thrown + string"
  editor_start :: "YjsEditor \<Rightarrow> Path \<Rightarrow> thrown + BasePoint"
  editor_end :: "YjsEditor \<Rightarrow> Path \<Rightarrow> thrown + BasePoint"
  isValidSelection :: "YjsEditor \<Rightarrow> BaseRange \<Rightarrow> bool"
  findNearestValidSelection :: "YjsEditor \<Rightarrow> BaseRange option \<Rightarrow> BaseRange option"
  getPreviousSiblingBlock :: "YSharedRoot \<Rightarrow> YBlock option \<Rightarrow> thrown + string option"
  hasRange :: "YjsEditor \<Rightarrow> BaseRange \<Rightarrow> bool"

text \<open>
  Modelled from the spec: \<open>getParent\<close> of \<open>utils/yjs\<close> is not among the sources; the
  parent of a block is the block that its \<open>parentId\<close> names.
\<close>

definition getParent :: "string \<Rightarrow> YSharedRoot \<Rightarrow> YBlock option" where
  "getParent blockId root =
     (case getBlock blockId root of
        None \<Rightarrow> None
      | Some block \<Rightarrow> getBlock (block_parent block) root)"

definition getSelectionOrThrow :: "YjsEditor \<Rightarrow> BaseRange option \<Rightarrow> thrown + BaseRange" where
  "getSelectionOrThrow editor at =
     (case at of
        Some r \<Rightarrow> Inr r
      | None \<Rightarrow>
          (case selection editor of
             Some r \<Rightarrow> Inr r
           | None \<Rightarrow> Inl (Thrown ''Selection not found'')))"

text \<open>\<open>Point.compare\<close>, \<open>Range.isCollapsed\<close> and \<open>Range.edges\<close>.\<close>

definition point_compare :: "BasePoint \<Rightarrow> BasePoint \<Rightarrow> int" where
  "point_compare p q =
     (let r = path_compare (point_path p) (point_path q)
      in if r = 0
         then (if point_offset p < point_offset q then -1
               else if point_offset q < point_offset p then 1 else 0)
         else r)"

definition isCollapsed :: "BaseRange \<Rightarrow> bool" where
  "isCollapsed r = (anchor r = focus r)"

definition range_edges :: "BaseRange \<Rightarrow> BasePoint \<times> BasePoint" where
  "range_edges r =
     (if point_compare (anchor r) (focus r) = 1 then (focus r, anchor r)
      else (anchor r, focus r))"

text \<open>\<open>Transforms.select\<close>, \<open>Transforms.deselect\<close> and \<open>Transforms.collapse\<close>.\<close>

definition select_range :: "YjsEditor \<Rightarrow> BaseRange \<Rightarrow> YjsEditor" where
  "select_range editor r = editor\<lparr>selection := Some r\<rparr>"

definition select_point :: "YjsEditor \<Rightarrow> BasePoint \<Rightarrow> YjsEditor" where
  "select_point editor p = editor\<lparr>selection := Some \<lparr>anchor = p, focus = p\<rparr>\<rparr>"

definition deselect :: "YjsEditor \<Rightarrow> YjsEditor" where
  "deselect editor = editor\<lparr>selection := None\<rparr>"

definition collapse_start :: "YjsEditor \<Rightarrow> YjsEditor" where
  "collapse_start editor =
     (case selection editor of
        None \<Rightarrow> editor
      | Some r \<Rightarrow> select_point editor (fst (range_edges r)))"

text \<open>The block of an entry's node: \<open>getBlock(node.blockId, sharedRoot)\<close>.\<close>

definition getBlockOfNode :: "node \<Rightarrow> YSharedRoot \<Rightarrow> YBlock option" where
  "getBlockOfNode n root =
     (case node_blockId n of None \<Rightarrow> None | Some blockId \<Rightarrow> getBlock blockId root)"

definition isQuoteListCase :: "commands \<Rightarrow> string \<Rightarrow> YBlock option \<Rightarrow> bool" where
  "isQuoteListCase c blockType parent =
     (blockType \<noteq> BlockType_Paragraph \<and>
      map_option block_type parent = Some BlockType_QuoteBlock \<and>
      blockType \<in> set (LIST_BLOCK_TYPES c))"

text \<open>\<open>CustomEditor.deleteBlockBackward\<close>.\<close>

definition deleteBlockBackward ::
  "commands \<Rightarrow> YjsEditor \<Rightarrow> BaseRange option \<Rightarrow> thrown + YjsEditor" where
  "deleteBlockBackward c editor at =
     (case getSelectionOrThrow editor at of
        Inl e \<Rightarrow> Inl e
      | Inr newAt \<Rightarrow>
          if isCollapsed newAt then
            (let point = anchor newAt
             in (case getBlockEntry c editor point of
                   None \<Rightarrow> Inr (log_msg WARN ''Block not found'' editor)
                 | Some (node, bpath) \<Rightarrow>
                     (case getBlockOfNode node (sharedRoot editor) of
                        None \<Rightarrow> Inr (log_msg WARN ''Block no longer exists in shared root'' editor)
                      | Some block \<Rightarrow>
                          (let blockType = block_type block;
                               parent = (case node_blockId node of
                                           None \<Rightarrow> None
                                         | Some blockId \<Rightarrow> getParent blockId (sharedRoot editor))
                           in if isQuoteListCase c blockType parent then
                                handleNonParagraphBlockBackspaceAndEnterWithTxn c editor block point
                              else
                                (case (if 1 < length bpath
                                       then handleLiftBlockOnBackspaceAndEnterWithTxn c editor block point
                                       else Inr (False, editor)) of
                                   Inl e \<Rightarrow> Inl e
                                 | Inr (lifted, editor1) \<Rightarrow>
                                     if lifted then Inr editor1
                                     else if blockType \<noteq> BlockType_Paragraph then
                                       handleNonParagraphBlockBackspaceAndEnterWithTxn c editor1 block point
                                     else handleMergeBlockBackwardWithTxn c editor1 node point)))))
          else removeRangeWithTxn c (collapse_start editor) newAt)"

text \<open>
  \<open>Editor.hasPath\<close>: every step of the path stays inside the tree; the empty path is the
  editor itself.
\<close>

definition hasPath :: "YjsEditor \<Rightarrow> Path \<Rightarrow> bool" where
  "hasPath editor p = (p = [] \<or> node_at (children editor) p \<noteq> None)"

text \<open>
  The last part of \<open>CustomEditor.tabEvent\<close>, from the comment \<open>Safely construct new
  selection paths\<close> to the end, which runs once the blocks have been moved. Its inputs are
  the values that the first part has computed: the paths of the new start and end blocks,
  the sub-paths and offsets of the two points of the old selection, and the old selection.
  First the recombined selection: \<open>None\<close> when a path does not exist or when
  \<open>Editor.string\<close> throws, which the source catches and logs.
\<close>

definition tabEvent_newSelection ::
  "commands \<Rightarrow> YjsEditor \<Rightarrow> Path \<Rightarrow> Path \<Rightarrow> Path \<Rightarrow> int \<Rightarrow> Path \<Rightarrow> int \<Rightarrow>
     BaseRange option \<times> YjsEditor" where
  "tabEvent_newSelection c editor newStartBlockPath newEndBlockPath
       startAtPath startAtOffset endAtPath endAtOffset =
     (let newStartPath = newStartBlockPath @ startAtPath;
          newEndPath = newEndBlockPath @ endAtPath
      in if hasPath editor newStartPath \<and> hasPath editor newEndPath then
           (case editor_string c editor newStartPath of
              Inl e \<Rightarrow> (None, log_msg WARN ''Error constructing new selection paths'' editor)
            | Inr startText \<Rightarrow>
                (case editor_string c editor newEndPath of
                   Inl e \<Rightarrow> (None, log_msg WARN ''Error constructing new selection paths'' editor)
                 | Inr endText \<Rightarrow>
                     (Some \<lparr>anchor = \<lparr>point_path = newStartPath,
                                      point_offset = max 0 (min startAtOffset (int (length startText)))\<rparr>,
                            focus = \<lparr>point_path = newEndPath,
                                     point_offset = max 0 (min endAtOffset (int (length endText)))\<rparr>\<rparr>,
                      editor)))
         else (None, editor))"

text \<open>The third strategy: the start of the new start block, when it is a valid selection.\<close>

definition tabEvent_startOfBlock ::
  "commands \<Rightarrow> YjsEditor \<Rightarrow> Path \<Rightarrow> BasePoint option \<times> YjsEditor" where
  "tabEvent_startOfBlock c editor newStartBlockPath =
     (if 0 < length newStartBlockPath then
        (case editor_start c editor newStartBlockPath of
           Inl e \<Rightarrow> (None, log_msg WARN ''Failed to select start of block'' editor)
         | Inr startOfBlock \<Rightarrow>
             (if isValidSelection c editor \<lparr>anchor = startOfBlock, focus = startOfBlock\<rparr>
              then (Some startOfBlock, editor) else (None, editor)))
      else (None, editor))"

text \<open>The test \<open>newSelection && isValidSelection(editor, newSelection)\<close>.\<close>

definition calculated_valid :: "commands \<Rightarrow> YjsEditor \<Rightarrow> BaseRange option \<Rightarrow> bool" where
  "calculated_valid c editor newSelection =
     (case newSelection of None \<Rightarrow> False | Some s \<Rightarrow> isValidSelection c editor s)"

definition tabEvent_applySelection ::
  "commands \<Rightarrow> YjsEditor \<Rightarrow> Path \<Rightarrow> BaseRange option \<Rightarrow> BaseRange \<Rightarrow> YjsEditor" where
  "tabEvent_applySelection c editor newStartBlockPath newSelection originalSelection =
     (if calculated_valid c editor newSelection then
        (case newSelection of None \<Rightarrow> editor | Some s \<Rightarrow> select_range editor s)
      else
        (let editor1 = log_msg WARN ''Calculated selection invalid, trying fallback strategies'' editor
         in (case (case newSelection of
                     None \<Rightarrow> None
                   | Some calculated \<Rightarrow> findNearestValidSelection c editor1 (Some calculated)) of
               Some nearestFromCalculated \<Rightarrow> select_range editor1 nearestFromCalculated
             | None \<Rightarrow>
                 (case findNearestValidSelection c editor1 (Some originalSelection) of
                    Some nearestFromOriginal \<Rightarrow> select_range editor1 nearestFromOriginal
                  | None \<Rightarrow>
                      (case tabEvent_startOfBlock c editor1 newStartBlockPath of
                         (Some startOfBlock, editor2) \<Rightarrow> select_point editor2 startOfBlock
                       | (None, editor2) \<Rightarrow>
                           (case findNearestValidSelection c editor2 None of
                              Some documentSelection \<Rightarrow> select_range editor2 documentSelection
                            | None \<Rightarrow>
                                log_msg WARN
                                  ''Could not establish any valid selection after tab operation''
                                  editor2))))))"

definition tabEvent_restoreSelection ::
  "commands \<Rightarrow> YjsEditor \<Rightarrow> Path \<Rightarrow> Path \<Rightarrow> Path \<Rightarrow> int \<Rightarrow> Path \<Rightarrow> int \<Rightarrow> BaseRange \<Rightarrow>
     YjsEditor" where
  "tabEvent_restoreSelection c editor newStartBlockPath newEndBlockPath
       startAtPath startAtOffset endAtPath endAtOffset originalSelection =
     (case tabEvent_newSelection c editor newStartBlockPath newEndBlockPath
             startAtPath startAtOffset endAtPath endAtOffset of
        (newSelection, editor1) \<Rightarrow>
          tabEvent_applySelection c editor1 newStartBlockPath newSelection originalSelection)"

text \<open>
  Modelled from the spec: \<open>executeOperations\<close>, \<open>deleteBlock\<close> of \<open>utils/yjs\<close> and
  \<open>addBlock\<close> of \<open>utils/editor\<close> are not among the sources. A transaction changes the
  shared tree, and the translator then receives the change events of the transaction as
  one batch. Deleting a block removes it from the block map and from the child order of
  its parent. Adding a block creates a block with a new id, an empty text and no children,
  and puts it into the child order of the parent at the given index.
\<close>

definition executeOperations ::
  "helpers \<Rightarrow> YjsEditor \<Rightarrow> (YSharedRoot \<Rightarrow> YSharedRoot) \<Rightarrow> YEvent list \<Rightarrow> thrown + YjsEditor" where
  "executeOperations h editor operation events =
     translateYEvents h (editor\<lparr>sharedRoot := operation (sharedRoot editor)\<rparr>) events"

text \<open>
  The block-map event with one changed key. Its target is the block map, which
  \<open>applyBlocksYEvent\<close> does not read; the field holds the given block.
\<close>

definition blockMapEvent :: "string \<Rightarrow> string \<Rightarrow> YBlock \<Rightarrow> YEvent" where
  "blockMapEvent key act block =
     \<lparr>event_path = [''document'', ''blocks''], keysChanged = [key],
      keys = [key \<mapsto> \<lparr>action = act, oldValue = None\<rparr>], target = block\<rparr>"

definition deleteBlock_shared :: "string \<Rightarrow> YSharedRoot \<Rightarrow> YSharedRoot" where
  "deleteBlock_shared blockId root =
     (case getParent blockId root of
        None \<Rightarrow> root
      | Some parent \<Rightarrow>
          root\<lparr>blocks := (blocks root)(blockId := None),
               children_map :=
                 (case getChildrenArray (block_children parent) root of
                    None \<Rightarrow> children_map root
                  | Some cs \<Rightarrow> (children_map root)(block_children parent \<mapsto> remove1 blockId cs))\<rparr>)"

definition addBlock_shared ::
  "string \<Rightarrow> string \<Rightarrow> string \<Rightarrow> YBlock \<Rightarrow> int \<Rightarrow> YSharedRoot \<Rightarrow> YSharedRoot" where
  "addBlock_shared newId blockTy blockData parent index root =
     root\<lparr>blocks := (blocks root)(newId \<mapsto>
              \<lparr>block_id = newId, block_type = blockTy, block_parent = block_id parent,
               block_children = newId, block_data = blockData, block_external_id = Some newId\<rparr>),
          children_map :=
            (case getChildrenArray (block_children parent) root of
               None \<Rightarrow> (children_map root)(newId \<mapsto> [])
             | Some cs \<Rightarrow>
                 (children_map root)(newId \<mapsto> [], block_children parent \<mapsto> splice_insert index newId cs)),
          text_map := (text_map root)(newId \<mapsto> [])\<rparr>"

definition addBlock ::
  "helpers \<Rightarrow> YjsEditor \<Rightarrow> string \<Rightarrow> string \<Rightarrow> YBlock \<Rightarrow> int \<Rightarrow> string \<Rightarrow> thrown + YjsEditor" where
  "addBlock h editor blockTy blockData parent index newId =
     executeOperations h editor (addBlock_shared newId blockTy blockData parent index)
       [blockMapEvent newId ''add'' parent]"

text \<open>
  The first part of \<open>CustomEditor.deleteBlock\<close>, inside \<open>try\<close>: the cursor is moved to
  the end of the previous sibling or to the start of the parent. \<open>None\<close> is a
  \<open>return\<close> of the whole command (an entry is not found); an exception is caught and the
  command goes on with the editor as it is.
\<close>

definition deleteBlock_cursor :: "commands \<Rightarrow> YjsEditor \<Rightarrow> YBlock \<Rightarrow> string \<Rightarrow> YjsEditor option" where
  "deleteBlock_cursor c editor parent blockId =
     (case getPreviousSiblingBlock c (sharedRoot editor) (getBlock blockId (sharedRoot editor)) of
        Inl e \<Rightarrow> Some editor
      | Inr prevBlockId \<Rightarrow>
          (case (case (if prevBlockId = Some [] then None else prevBlockId) of
                   None \<Rightarrow>
                     (if block_type parent \<noteq> BlockType_Page then
                        (case findSlateEntryByBlockId editor (block_id parent) of
                           None \<Rightarrow> None
                         | Some (n, p) \<Rightarrow> Some (map_sum id Some (editor_start c editor p)))
                      else Some (Inr None))
                 | Some prev \<Rightarrow>
                     (case findSlateEntryByBlockId editor prev of
                        None \<Rightarrow> None
                      | Some (n, p) \<Rightarrow> Some (map_sum id Some (editor_end c editor p)))) of
             None \<Rightarrow> None
           | Some (Inl e) \<Rightarrow> Some editor
           | Some (Inr None) \<Rightarrow> Some (deselect editor)
           | Some (Inr (Some point)) \<Rightarrow>
               (if hasRange c editor \<lparr>anchor = point, focus = point\<rparr>
                then Some (select_point editor point)
                else Some (deselect editor))))"

text \<open>
  \<open>CustomEditor.deleteBlock\<close>; \<open>newId\<close> is the id that \<open>addBlock\<close> generates for the
  placeholder paragraph.
\<close>

definition deleteBlock ::
  "helpers \<Rightarrow> commands \<Rightarrow> YjsEditor \<Rightarrow> string \<Rightarrow> string \<Rightarrow> thrown + YjsEditor" where
  "deleteBlock h c editor blockId newId =
     (case getParent blockId (sharedRoot editor) of
        None \<Rightarrow> Inr (log_msg WARN ''Parent block not found'' editor)
      | Some parent \<Rightarrow>
          (case deleteBlock_cursor c editor parent blockId of
             None \<Rightarrow> Inr editor
           | Some editor1 \<Rightarrow>
               (case executeOperations h editor1 (deleteBlock_shared blockId)
                       [blockMapEvent blockId ''delete'' parent] of
                  Inl e \<Rightarrow> Inl e
                | Inr editor2 \<Rightarrow>
                    if length (children editor2) = 0
                    then addBlock h editor2 BlockType_Paragraph ''{}'' parent 0 newId
                    else Inr editor2)))"

section \<open>The properties in the words of the specification\<close>



text \<open>Guards checked in order: the first that matches gives the result.\<close>

fun first_guard :: "(bool \<times> 'a) list \<Rightarrow> 'a \<Rightarrow> 'a" where
  "first_guard [] otherwise = otherwise"
| "first_guard ((g, r) # rest) otherwise = (if g then r else first_guard rest otherwise)"

text \<open>Strategies tried in order: the first that succeeds wins.\<close>

fun first_success :: "'a option list \<Rightarrow> 'a option" where
  "first_success [] = None"
| "first_success (None # rest) = first_success rest"
| "first_success (Some x # rest) = Some x"


text \<open>Moving an entry found in a tail of a child list to its index in the whole list.\<close>

definition bump :: "nat \<Rightarrow> node \<times> Path \<Rightarrow> node \<times> Path" where
  "bump i e = (fst e, (hd (snd e) + int i) # tl (snd e))"

section \<open>Example documents\<close>

text \<open>Instances of the parameters, used to run the model on concrete documents.\<close>

definition h0 :: helpers where
  "h0 = \<lparr>deltaInsertToSlateNode = (\<lambda>d. [Text (fst d) (snd d)]),
         dataStringTOJson = (\<lambda>s. if s = [] then [] else [(''raw'', s)]),
         applyTextYEvent = (\<lambda>e t ev. Inr e),
         arrayPrototypeNames = [''map'', ''push'', ''slice'', ''concat'']\<rparr>"

definition mkBlock :: "string \<Rightarrow> string \<Rightarrow> string \<Rightarrow> string option \<Rightarrow> YBlock" where
  "mkBlock i t p x =
     \<lparr>block_id = i, block_type = t, block_parent = p, block_children = i,
      block_data = [], block_external_id = x\<rparr>"

definition textElement :: "string \<Rightarrow> string \<Rightarrow> node" where
  "textElement tid s = Element None ''text'' [] (Some tid) [Text s []]"

definition mkEditor :: "node list \<Rightarrow> YSharedRoot \<Rightarrow> YjsEditor" where
  "mkEditor ns root = \<lparr>children = ns, sharedRoot = root, selection = None, logs = []\<rparr>"

definition mkEvent :: "(string \<times> string) list \<Rightarrow> YEvent" where
  "mkEvent changes =
     \<lparr>event_path = [''document'', ''blocks''], keysChanged = map fst changes,
      keys = map_of (map (\<lambda>(k, a). (k, \<lparr>action = a, oldValue = None\<rparr>)) changes),
      target = mkBlock [] [] [] None\<rparr>"

text \<open>
  A page with a toggle list \<open>P\<close>. In the shared tree the transaction has replaced the
  child \<open>A\<close> of \<open>P\<close> by \<open>B\<close>; the editor still shows \<open>A\<close>.
\<close>

definition root_nested :: YSharedRoot where
  "root_nested =
     \<lparr>page_id = ''pg'',
      blocks = map_of [(''pg'', mkBlock ''pg'' ''page'' [] None),
                       (''P'', mkBlock ''P'' ''toggle_list'' ''pg'' (Some ''tP'')),
                       (''B'', mkBlock ''B'' ''paragraph'' ''P'' (Some ''tB''))],
      children_map = map_of [(''pg'', [''P'']), (''P'', [''B'']), (''B'', [])],
      text_map = map_of [(''tP'', [(''list'', [])]), (''tB'', [(''new'', [])])]\<rparr>"

definition node_A :: node where
  "node_A = Element (Some ''A'') ''paragraph'' [] None [textElement ''tA'' ''old'']"

definition node_B :: node where
  "node_B = Element (Some ''B'') ''paragraph'' [] None [textElement ''tB'' ''new'']"

definition ed_nested :: YjsEditor where
  "ed_nested =
     mkEditor [Element (Some ''P'') ''toggle_list'' [] None [textElement ''tP'' ''list'', node_A]]
       root_nested"

definition ev_swap :: YEvent where
  "ev_swap = mkEvent [(''B'', ''add''), (''A'', ''delete'')]"

text \<open>
  A page whose children were \<open>Y, A\<close>; the transaction has deleted \<open>A\<close> and inserted \<open>B\<close>
  and then \<open>C\<close> at the front, so the page now has the children \<open>C, B, Y\<close>.
\<close>

definition root_three :: YSharedRoot where
  "root_three =
     \<lparr>page_id = ''pg'',
      blocks = map_of [(''pg'', mkBlock ''pg'' ''page'' [] None),
                       (''C'', mkBlock ''C'' ''paragraph'' ''pg'' None),
                       (''B'', mkBlock ''B'' ''paragraph'' ''pg'' None),
                       (''Y'', mkBlock ''Y'' ''paragraph'' ''pg'' None)],
      children_map = map_of [(''pg'', [''C'', ''B'', ''Y'']), (''C'', []), (''B'', []), (''Y'', [])],
      text_map = Map.empty\<rparr>"

definition leaf :: "string \<Rightarrow> node" where
  "leaf i = Element (Some i) ''paragraph'' [] None []"

definition ed_three :: YjsEditor where
  "ed_three = mkEditor [leaf ''Y'', leaf ''A''] root_three"

definition ev_three :: YEvent where
  "ev_three = mkEvent [(''A'', ''delete''), (''B'', ''add''), (''C'', ''add'')]"

text \<open>
  A page with one paragraph \<open>b1\<close> that names the text \<open>t1\<close>: first with no such text in
  the text map, then with a text of zero runs.
\<close>

definition root_notext :: YSharedRoot where
  "root_notext =
     \<lparr>page_id = ''pg'',
      blocks = map_of [(''pg'', mkBlock ''pg'' ''page'' [] None),
                       (''b1'', mkBlock ''b1'' ''paragraph'' ''pg'' (Some ''t1''))],
      children_map = map_of [(''pg'', [''b1'']), (''b1'', [])],
      text_map = Map.empty\<rparr>"

definition root_emptytext :: YSharedRoot where
  "root_emptytext = root_notext\<lparr>text_map := map_of [(''t1'', [])]\<rparr>"

definition node_b1 :: node where
  "node_b1 = Element (Some ''b1'') ''paragraph'' [] None [Element None ''text'' [] (Some ''t1'') [Text [] []]]"


text \<open>
  A page with a to-do item whose data string is not empty, shown in the editor with
  empty data; and an editor that shows a paragraph \<open>X\<close> and not the parent \<open>P\<close> of
  the block \<open>B\<close> of the nested document.
\<close>

definition root_todo :: YSharedRoot where
  "root_todo =
     \<lparr>page_id = ''pg'',
      blocks = map_of [(''pg'', mkBlock ''pg'' ''page'' [] None),
                       (''b1'', (mkBlock ''b1'' ''todo_list'' ''pg'' (Some ''t1''))\<lparr>block_data := ''checked''\<rparr>)],
      children_map = map_of [(''pg'', [''b1'']), (''b1'', [])],
      text_map = map_of [(''t1'', [(''todo'', [])])]\<rparr>"

definition ed_todo :: YjsEditor where
  "ed_todo = mkEditor [Element (Some ''b1'') ''todo_list'' [] None [textElement ''t1'' ''todo'']] root_todo"

definition ed_orphan :: YjsEditor where
  "ed_orphan =
     mkEditor [Element (Some ''X'') ''paragraph'' [] None [textElement ''tX'' ''x'']] root_nested"

text \<open>
  A page that lists \<open>C\<close> and \<open>P\<close>, where the children array of \<open>P\<close> does not exist
  in the shared tree yet although the block \<open>B\<close> already names \<open>P\<close> as its parent; the
  editor shows nothing. The batch adds \<open>B\<close> and then \<open>C\<close>.
\<close>

definition root_noarray :: YSharedRoot where
  "root_noarray =
     \<lparr>page_id = ''pg'',
      blocks = map_of [(''pg'', mkBlock ''pg'' ''page'' [] None),
                       (''C'', mkBlock ''C'' ''paragraph'' ''pg'' None),
                       (''P'', mkBlock ''P'' ''toggle_list'' ''pg'' None),
                       (''B'', mkBlock ''B'' ''paragraph'' ''P'' None)],
      children_map = map_of [(''pg'', [''C'', ''P'']), (''C'', []), (''B'', [])],
      text_map = Map.empty\<rparr>"

definition ed_noarray :: YjsEditor where
  "ed_noarray = mkEditor [] root_noarray"

definition ev_noarray :: YEvent where
  "ev_noarray = mkEvent [(''B'', ''add''), (''C'', ''add'')]"

text \<open>
  A page with a block whose id is the name \<open>constructor\<close>, and a block \<open>B\<close> below it;
  the editor shows nothing.
\<close>

definition root_inherited :: YSharedRoot where
  "root_inherited =
     \<lparr>page_id = ''pg'',
      blocks = map_of [(''pg'', mkBlock ''pg'' ''page'' [] None),
                       (''constructor'', mkBlock ''constructor'' ''toggle_list'' ''pg'' None),
                       (''B'', mkBlock ''B'' ''paragraph'' ''constructor'' None)],
      children_map = map_of [(''pg'', [''constructor'']), (''constructor'', [''B'']), (''B'', [])],
      text_map = Map.empty\<rparr>"

text \<open>
  The toggle list \<open>P\<close> shown with the single child \<open>A\<close> and without a text node. The
  shared tree holds the block \<open>B\<close> with the parent \<open>P\<close>, but the children array of
  \<open>P\<close> lists only \<open>A\<close>.
\<close>

definition root_unlisted :: YSharedRoot where
  "root_unlisted =
     \<lparr>page_id = ''pg'',
      blocks = map_of [(''pg'', mkBlock ''pg'' ''page'' [] None),
                       (''P'', mkBlock ''P'' ''toggle_list'' ''pg'' None),
                       (''A'', mkBlock ''A'' ''paragraph'' ''P'' (Some ''tA'')),
                       (''B'', mkBlock ''B'' ''paragraph'' ''P'' (Some ''tB''))],
      children_map = map_of [(''pg'', [''P'']), (''P'', [''A'']), (''A'', []), (''B'', [])],
      text_map = map_of [(''tA'', [(''old'', [])]), (''tB'', [(''new'', [])])]\<rparr>"

definition ed_unlisted :: YjsEditor where
  "ed_unlisted = mkEditor [Element (Some ''P'') ''toggle_list'' [] None [node_A]] root_unlisted"

text \<open>
  Instances of the command parameters. The entry of a point is the lowest ancestor with a
  block id; lifting reparents a block to its grandparent unless its parent is the page.
\<close>

fun levels :: "node list \<Rightarrow> Path \<Rightarrow> Path \<Rightarrow> (node \<times> Path) list" where
  "levels ns pre [] = []"
| "levels ns pre (i # p) =
     (if i < 0 \<or> int (length ns) \<le> i then []
      else (ns ! nat i, pre @ [i]) # levels (node_children (ns ! nat i)) (pre @ [i]) p)"

definition blockEntryAbove :: "YjsEditor \<Rightarrow> BasePoint \<Rightarrow> (node \<times> Path) option" where
  "blockEntryAbove editor point =
     (case filter (\<lambda>e. node_blockId (fst e) \<noteq> None)
             (rev (levels (children editor) [] (butlast (point_path point)))) of
        [] \<Rightarrow> None
      | e # rest \<Rightarrow> Some e)"

fun previous_in :: "string \<Rightarrow> string list \<Rightarrow> string option" where
  "previous_in k (x # y # ys) = (if y = k then Some x else previous_in k (y # ys))"
| "previous_in k ys = None"

definition setBlock :: "YBlock \<Rightarrow> YjsEditor \<Rightarrow> YjsEditor" where
  "setBlock b editor =
     editor\<lparr>sharedRoot := (sharedRoot editor)\<lparr>blocks := (blocks (sharedRoot editor))(block_id b \<mapsto> b)\<rparr>\<rparr>"

definition c0 :: commands where
  "c0 = \<lparr>LIST_BLOCK_TYPES = [''todo_list'', ''bulleted_list'', ''numbered_list'', ''toggle_list''],
         getBlockEntry = blockEntryAbove,
         handleNonParagraphBlockBackspaceAndEnterWithTxn =
           (\<lambda>e b pt. Inr (setBlock (b\<lparr>block_type := ''paragraph''\<rparr>) e)),
         handleLiftBlockOnBackspaceAndEnterWithTxn =
           (\<lambda>e b pt. case getParent (block_id b) (sharedRoot e) of
                        None \<Rightarrow> Inr (False, e)
                      | Some p \<Rightarrow>
                          if block_id p = getPageId (sharedRoot e) then Inr (False, e)
                          else Inr (True, setBlock (b\<lparr>block_parent := block_parent p\<rparr>) e)),
         handleMergeBlockBackwardWithTxn = (\<lambda>e n pt. Inr (deselect e)),
         removeRangeWithTxn = (\<lambda>e r. Inr e),
         editor_string = (\<lambda>e p. Inl (Thrown ''no text at path'')),
         editor_start = (\<lambda>e p. Inr \<lparr>point_path = p @ [0, 0], point_offset = 0\<rparr>),
         editor_end = (\<lambda>e p. Inr \<lparr>point_path = p @ [0, 0], point_offset = 0\<rparr>),
         isValidSelection =
           (\<lambda>e r. hasPath e (point_path (anchor r)) \<and> hasPath e (point_path (focus r))),
         findNearestValidSelection =
           (\<lambda>e r. case r of
                     None \<Rightarrow> None
                   | Some s \<Rightarrow>
                       if hasPath e (point_path (anchor s)) \<and> hasPath e (point_path (focus s))
                       then Some s else None),
         getPreviousSiblingBlock =
           (\<lambda>root b. case b of
                        None \<Rightarrow> Inl (Thrown ''no block'')
                      | Some blk \<Rightarrow>
                          Inr (case getParent (block_id blk) root of
                                 None \<Rightarrow> None
                               | Some p \<Rightarrow>
                                   (case getChildrenArray (block_children p) root of
                                      None \<Rightarrow> None
                                    | Some cs \<Rightarrow> previous_in (block_id blk) cs))),
         hasRange =
           (\<lambda>e r. hasPath e (point_path (anchor r)) \<and> hasPath e (point_path (focus r)))\<rparr>"

text \<open>A page with a quote \<open>Q\<close> whose only child is the paragraph \<open>X\<close>.\<close>

definition root_quote :: YSharedRoot where
  "root_quote =
     \<lparr>page_id = ''pg'',
      blocks = map_of [(''pg'', mkBlock ''pg'' ''page'' [] None),
                       (''Q'', mkBlock ''Q'' ''quote'' ''pg'' (Some ''tQ'')),
                       (''X'', mkBlock ''X'' ''paragraph'' ''Q'' (Some ''tX''))],
      children_map = map_of [(''pg'', [''Q'']), (''Q'', [''X'']), (''X'', [])],
      text_map = map_of [(''tQ'', [(''q'', [])]), (''tX'', [(''x'', [])])]\<rparr>"

definition node_X :: node where
  "node_X = Element (Some ''X'') ''paragraph'' [] None [textElement ''tX'' ''x'']"

definition ed_quote :: YjsEditor where
  "ed_quote = mkEditor [Element (Some ''Q'') ''quote'' [] None [textElement ''tQ'' ''q'', node_X]] root_quote"

definition cursor :: "Path \<Rightarrow> int \<Rightarrow> BaseRange" where
  "cursor p off = \<lparr>anchor = \<lparr>point_path = p, point_offset = off\<rparr>,
                  focus = \<lparr>point_path = p, point_offset = off\<rparr>\<rparr>"

text \<open>An editor that still shows a block which the shared tree no longer holds.\<close>

definition ed_stale :: YjsEditor where
  "ed_stale =
     (mkEditor [Element (Some ''gone'') ''paragraph'' [] None [textElement ''tG'' ''g'']] root_quote)
       \<lparr>selection := Some (cursor [0, 0, 0] 0)\<rparr>"

section \<open>The order of the updates\<close>

lemma insert_sorted_delete:
  "u_action x = ''delete'' \<Longrightarrow> insert_sorted compare_updates x ys = x # ys"
  by (cases ys) (simp_all add: compare_updates_def)

lemma insert_sorted_other_front:
  "u_action x \<noteq> ''delete'' \<Longrightarrow> \<forall>y \<in> set ys. u_action y \<noteq> ''delete'' \<Longrightarrow>
     insert_sorted compare_updates x ys = x # ys"
  by (cases ys) (simp_all add: compare_updates_def)

lemma insert_sorted_other:
  "u_action x \<noteq> ''delete'' \<Longrightarrow> \<forall>d \<in> set ds. u_action d = ''delete'' \<Longrightarrow>
   \<forall>y \<in> set ys. u_action y \<noteq> ''delete'' \<Longrightarrow>
     insert_sorted compare_updates x (ds @ ys) = ds @ x # ys"
proof (induction ds)
  case Nil
  then show ?case by (simp add: insert_sorted_other_front)
next
  case (Cons d ds)
  then show ?case by (simp add: compare_updates_def)
qed

lemma array_sort_deletes_first:
  "array_sort compare_updates us =
     filter (\<lambda>u. u_action u = ''delete'') us @ filter (\<lambda>u. u_action u \<noteq> ''delete'') us"
proof (induction us)
  case Nil
  show ?case by (simp add: array_sort_def)
next
  case (Cons u us)
  have step: "array_sort compare_updates (u # us) =
                insert_sorted compare_updates u (array_sort compare_updates us)"
    by (simp add: array_sort_def)
  show ?case
  proof (cases "u_action u = ''delete''")
    case True
    then show ?thesis using Cons step by (simp add: insert_sorted_delete)
  next
    case False
    then show ?thesis using Cons step by (simp add: insert_sorted_other)
  qed
qed

lemma collect_updates_fields:
  "collect_updates ks cs editor = (us, editor') \<Longrightarrow>
     children editor' = children editor \<and> sharedRoot editor' = sharedRoot editor \<and>
     selection editor' = selection editor"
proof (induction cs arbitrary: editor us editor')
  case Nil
  then show ?case by simp
next
  case (Cons k rest)
  show ?case
  proof (cases "ks k")
    case None
    with Cons.prems have "collect_updates ks rest (log_msg WARN ''No value found for key'' editor) = (us, editor')"
      by simp
    from Cons.IH[OF this] show ?thesis by (simp add: log_msg_def)
  next
    case (Some v)
    obtain us0 e0 where r: "collect_updates ks rest editor = (us0, e0)" by (cases "collect_updates ks rest editor")
    with Some Cons.prems have "editor' = e0" by simp
    with Cons.IH[OF r] show ?thesis by simp
  qed
qed

lemma collect_updates_actions:
  "collect_updates ks cs editor = (us, editor') \<Longrightarrow> u \<in> set us \<Longrightarrow>
     \<exists>k v. k \<in> set cs \<and> ks k = Some v \<and> u_key u = k \<and> u_action u = action v"
proof (induction cs arbitrary: editor us editor')
  case Nil
  then show ?case by simp
next
  case (Cons k rest)
  show ?case
  proof (cases "ks k")
    case None
    with Cons.prems have "collect_updates ks rest (log_msg WARN ''No value found for key'' editor) = (us, editor')"
      by simp
    from Cons.IH[OF this Cons.prems(2)] show ?thesis by auto
  next
    case (Some v)
    obtain us0 e0 where r: "collect_updates ks rest editor = (us0, e0)" by (cases "collect_updates ks rest editor")
    with Some Cons.prems have us: "us = \<lparr>u_key = k, u_action = action v, u_value = v\<rparr> # us0" by simp
    show ?thesis
    proof (cases "u \<in> set us0")
      case True
      from Cons.IH[OF r True] show ?thesis by auto
    next
      case False
      with us Cons.prems(2) have "u = \<lparr>u_key = k, u_action = action v, u_value = v\<rparr>" by simp
      with Some show ?thesis by auto
    qed
  qed
qed

lemma apply_updates_noop:
  "\<forall>u \<in> set us. u_action u \<noteq> ''add'' \<and> u_action u \<noteq> ''delete'' \<Longrightarrow>
     apply_updates h us (editor, keyPath) = Inr (editor, keyPath)"
  by (induction us) simp_all


section \<open>Entries and paths\<close>








declare findEntry.simps(2,3) [simp del]



lemma bump_path: "bump (Suc 0) (n, int j # q) = (n, int (Suc j) # q)"
  by (simp add: bump_def)



lemma splice_insert_in_range:
  "0 \<le> j \<Longrightarrow> j \<le> int (length cs) \<Longrightarrow>
     splice_insert j x cs = take (nat j) cs @ x # drop (nat j) cs"
  by (simp add: splice_insert_def splice_start_def min_def)



lemma findIndex_bounds: "-1 \<le> findIndex key cs \<and> findIndex key cs < int (length cs)"
  by (induction cs) (auto simp: Let_def)

lemma findIndex_mem: "key \<in> set cs \<Longrightarrow> 0 \<le> findIndex key cs"
  by (induction cs) (auto simp: Let_def)

lemma findIndex_not_mem: "key \<notin> set cs \<Longrightarrow> findIndex key cs = -1"
  by (induction cs) (auto simp: Let_def)










lemma handleNewBlock_inserts:
  assumes blk: "getBlock key (sharedRoot editor) = Some block"
      and par: "getBlock (block_parent block) (sharedRoot editor) = Some parent"
      and arr: "getChildrenArray (block_children parent) (sharedRoot editor) = Some parentChildren"
      and ipath: "newBlockPath h editor keyPath (block_parent block) (getPageId (sharedRoot editor))
                    (findIndex key parentChildren) = Inr (Some ipath)"
      and ins: "insert_node (children editor) ipath (newBlockNode h (sharedRoot editor) block) = Inr ns"
  shows "\<exists>editor'. handleNewBlock h editor key keyPath = Inr (editor', keyPath_set keyPath key ipath) \<and>
           children editor' = ns \<and> sharedRoot editor' = sharedRoot editor \<and>
           logs editor' = logs editor"
  using blk par arr ipath ins
  by (simp add: handleNewBlock_def apply_insert_node_def Let_def)

lemma findIndex_first:
  "i < length cs \<Longrightarrow> cs ! i = key \<Longrightarrow> key \<notin> set (take i cs) \<Longrightarrow> findIndex key cs = int i"
proof (induction cs arbitrary: i)
  case Nil
  then show ?case by simp
next
  case (Cons c cs)
  show ?case
  proof (cases i)
    case 0
    with Cons.prems show ?thesis by simp
  next
    case (Suc k)
    with Cons.prems have "k < length cs" "cs ! k = key" "key \<notin> set (take k cs)" "c \<noteq> key"
      by auto
    with Cons.IH[of k] Suc show ?thesis by (simp add: Let_def)
  qed
qed

section \<open>Batches that change nothing\<close>

lemma set_array_sort_updates: "set (array_sort compare_updates us) = set us"
  by (auto simp: array_sort_deletes_first)

lemma collect_updates_logs:
  "collect_updates ks cs editor = (us, editor') \<Longrightarrow>
     logs editor' =
       logs editor @ replicate (length (filter (\<lambda>k. ks k = None) cs)) (WARN, ''No value found for key'')"
proof (induction cs arbitrary: editor us editor')
  case Nil
  then show ?case by simp
next
  case (Cons k rest)
  show ?case
  proof (cases "ks k")
    case None
    with Cons.prems have "collect_updates ks rest (log_msg WARN ''No value found for key'' editor) = (us, editor')"
      by simp
    from Cons.IH[OF this] None show ?thesis
      by (simp add: log_msg_def replicate_app_Cons_same)
  next
    case (Some v)
    obtain us0 e0 where r: "collect_updates ks rest editor = (us0, e0)"
      by (cases "collect_updates ks rest editor")
    with Some Cons.prems have "editor' = e0" by simp
    with Cons.IH[OF r] Some show ?thesis by simp
  qed
qed

lemma collect_updates_deletes:
  "collect_updates ks cs editor = (us, editor') \<Longrightarrow>
     length (filter (\<lambda>u. u_action u = ''delete'') us) =
     length (filter (\<lambda>k. map_option action (ks k) = Some ''delete'') cs)"
proof (induction cs arbitrary: editor us editor')
  case Nil
  then show ?case by simp
next
  case (Cons k rest)
  show ?case
  proof (cases "ks k")
    case None
    with Cons.prems have "collect_updates ks rest (log_msg WARN ''No value found for key'' editor) = (us, editor')"
      by simp
    from Cons.IH[OF this] None show ?thesis by simp
  next
    case (Some v)
    obtain us0 e0 where r: "collect_updates ks rest editor = (us0, e0)"
      by (cases "collect_updates ks rest editor")
    with Some Cons.prems have "us = \<lparr>u_key = k, u_action = action v, u_value = v\<rparr> # us0" by simp
    with Cons.IH[OF r] Some show ?thesis by simp
  qed
qed

lemma array_sort_deletes_count:
  "length (filter (\<lambda>u. u_action u = ''delete'') (array_sort compare_updates us)) =
   length (filter (\<lambda>u. u_action u = ''delete'') us)"
  by (simp add: array_sort_deletes_first)

lemma apply_updates_absent:
  "\<forall>u \<in> set us. u_action u \<noteq> ''add'' \<and>
      (u_action u = ''delete'' \<longrightarrow> findEntry (u_key u) 0 (children editor) = None) \<Longrightarrow>
   \<exists>editor'. apply_updates h us (editor, keyPath) = Inr (editor', keyPath) \<and>
      children editor' = children editor \<and> sharedRoot editor' = sharedRoot editor \<and>
      selection editor' = selection editor \<and>
      logs editor' =
        logs editor @ replicate (length (filter (\<lambda>u. u_action u = ''delete'') us))
                        (ERROR, ''Block not found for deletion'')"
proof (induction us arbitrary: editor)
  case Nil
  show ?case by simp
next
  case (Cons u us)
  show ?case
  proof (cases "u_action u = ''delete''")
    case True
    with Cons.prems have absent: "findEntry (u_key u) 0 (children editor) = None" by simp
    let ?e = "log_msg ERROR ''Block not found for deletion'' editor"
    have del: "handleDeleteNode editor (u_key u) = ?e"
      using absent by (simp add: handleDeleteNode_def)
    have same: "children ?e = children editor" "sharedRoot ?e = sharedRoot editor"
               "selection ?e = selection editor"
               "logs ?e = logs editor @ [(ERROR, ''Block not found for deletion'')]"
      by (simp_all add: log_msg_def)
    from Cons.prems same have "\<forall>u \<in> set us. u_action u \<noteq> ''add'' \<and>
      (u_action u = ''delete'' \<longrightarrow> findEntry (u_key u) 0 (children ?e) = None)" by simp
    from Cons.IH[OF this] True del same show ?thesis
      by (auto simp: replicate_app_Cons_same)
  next
    case False
    from Cons.prems have "\<forall>u \<in> set us. u_action u \<noteq> ''add'' \<and>
      (u_action u = ''delete'' \<longrightarrow> findEntry (u_key u) 0 (children editor) = None)"
      and "u_action u \<noteq> ''add''" by simp_all
    with Cons.IH[of editor] False show ?thesis by simp
  qed
qed

section \<open>Evaluation of the examples\<close>

lemmas fixture_defs = h0_def mkBlock_def textElement_def mkEditor_def mkEvent_def root_nested_def
  node_A_def node_B_def ed_nested_def ev_swap_def root_three_def leaf_def ed_three_def ev_three_def
  root_notext_def root_emptytext_def node_b1_def root_todo_def ed_todo_def ed_orphan_def
  root_noarray_def ed_noarray_def ev_noarray_def root_inherited_def root_unlisted_def ed_unlisted_def

lemmas model_defs = handleNewBlock_def handleDeleteNode_def applyBlocksYEvent_def getBlock_def getPageId_def
  getChildrenArray_def getText_def newTextNode_def newBlockNode_def newBlockPath_def blockToSlateNode_def
  apply_insert_node_def apply_remove_node_def selection_after_insert_def selection_after_remove_def
  keyPath_get_def keyPath_set_def emptyKeyPath_def Object_prototype_names_def
  insert_node_def remove_node_def splice_insert_def splice_remove_def splice_start_def
  parentHasTextNode_def YjsEditorKey_text_def array_sort_def compare_updates_def log_msg_def Let_def



lemmas command_defs = c0_def blockEntryAbove_def setBlock_def root_quote_def node_X_def ed_quote_def
  cursor_def ed_stale_def getParent_def getSelectionOrThrow_def isCollapsed_def getBlockOfNode_def
  isQuoteListCase_def BlockType_Paragraph_def BlockType_QuoteBlock_def BlockType_Page_def
  select_range_def select_point_def deselect_def hasPath_def

lemmas delete_defs = deleteBlock_def deleteBlock_cursor_def executeOperations_def blockMapEvent_def
  deleteBlock_shared_def addBlock_def addBlock_shared_def translateYEvent_def findSlateEntryByBlockId_def

section \<open>Commands and transactions\<close>

lemma tabEvent_newSelection_fields:
  "tabEvent_newSelection c editor nsb neb sp so ep eo = (newSelection, editor1) \<Longrightarrow>
     children editor1 = children editor \<and> sharedRoot editor1 = sharedRoot editor \<and>
     selection editor1 = selection editor"
  by (auto simp: tabEvent_newSelection_def Let_def log_msg_def split: if_splits sum.splits)

lemma translate_block_map_event:
  "translateYEvents h editor [blockMapEvent k a b] = applyBlocksYEvent h editor (blockMapEvent k a b)"
  by (cases "applyBlocksYEvent h editor (blockMapEvent k a b)")
     (simp_all add: translateYEvent_def Let_def blockMapEvent_def)

lemma array_sort_single: "array_sort cmp [u] = [u]"
  by (simp add: array_sort_def)

section \<open>Deletions before additions\<close>





section \<open>The text child of a new block\<close>

text \<open>
  Claim C3, as stated, fails: a block that names a text which the text map does not hold
  is inserted with no child at all.
\<close>

theorem block_without_text_entity_has_no_child:
  "map_option block_external_id (getBlock ''b1'' root_notext) = Some (Some ''t1'') \<and>
   map_sum id (children \<circ> fst) (handleNewBlock h0 (mkEditor [] root_notext) ''b1'' emptyKeyPath) =
     Inr [Element (Some ''b1'') ''paragraph'' [] None []]"
  by (simp add: fixture_defs model_defs)

text \<open>
  Claim C3, amended: when \<open>handleNewBlock\<close> inserts a node, the node is the converted
  block; if the text that the block names exists, the only child of the node is a text
  element with at least one run, the runs of the text, or one empty run when the text has
  none; if the text does not exist (or the block names none), the node has no child.
\<close>

theorem text_child_when_text_exists:
  assumes blk: "getBlock key (sharedRoot editor) = Some block"
      and run: "handleNewBlock h editor key keyPath = Inr (editor', keyPath')"
      and changed: "children editor' \<noteq> children editor"
  shows "\<exists>ipath cs.
           insert_node (children editor) ipath
             (Element (Some (block_id block)) (block_type block)
                (dataStringTOJson h (block_data block)) None cs) = Inr (children editor') \<and>
           (case getText (block_external_id block) (sharedRoot editor) of
              None \<Rightarrow> cs = []
            | Some delta \<Rightarrow>
                (\<exists>runs. cs = [Element None YjsEditorKey_text [] (block_external_id block) runs] \<and>
                        runs \<noteq> [] \<and>
                        runs = (if concat (map (deltaInsertToSlateNode h) delta) = [] then [Text [] []]
                                else concat (map (deltaInsertToSlateNode h) delta))))"
proof -
  let ?nd = "newBlockNode h (sharedRoot editor) block"
  define runs_of where
    "runs_of delta = (if concat (map (deltaInsertToSlateNode h) delta) = [] then [Text [] []]
                      else concat (map (deltaInsertToSlateNode h) delta))" for delta
  have nonempty: "runs_of delta \<noteq> []" for delta by (simp add: runs_of_def)
  from run blk changed obtain ipath where ins: "insert_node (children editor) ipath ?nd = Inr (children editor')"
    by (auto simp: handleNewBlock_def apply_insert_node_def Let_def log_msg_def
             split: option.splits sum.splits)
  have shape: "?nd = Element (Some (block_id block)) (block_type block) (dataStringTOJson h (block_data block)) None
                  (case getText (block_external_id block) (sharedRoot editor) of
                     None \<Rightarrow> []
                   | Some delta \<Rightarrow> [Element None YjsEditorKey_text [] (block_external_id block) (runs_of delta)])"
    by (simp add: newBlockNode_def blockToSlateNode_def newTextNode_def Let_def runs_of_def
             split: option.splits)
  show ?thesis
  proof (cases "getText (block_external_id block) (sharedRoot editor)")
    case None
    with ins shape show ?thesis by auto
  next
    case (Some delta)
    with ins shape have "insert_node (children editor) ipath
             (Element (Some (block_id block)) (block_type block)
                (dataStringTOJson h (block_data block)) None
                [Element None YjsEditorKey_text [] (block_external_id block) (runs_of delta)])
              = Inr (children editor')" by simp
    moreover have "runs_of delta = (if concat (map (deltaInsertToSlateNode h) delta) = [] then [Text [] []]
                                else concat (map (deltaInsertToSlateNode h) delta))"
      by (simp only: runs_of_def)
    ultimately show ?thesis using Some nonempty[of delta]
      by (simp only: option.case) blast
  qed
qed

theorem text_child_when_text_exists_witness:
  "\<exists>ipath runs. runs = [Text [] []] \<and>
     insert_node [] ipath
       (Element (Some ''b1'') ''paragraph'' [] None [Element None YjsEditorKey_text [] (Some ''t1'') runs])
       = Inr [node_b1]"
proof -
  let ?e = "mkEditor [] root_emptytext"
  let ?block = "mkBlock ''b1'' ''paragraph'' ''pg'' (Some ''t1'')"
  have blk: "getBlock ''b1'' (sharedRoot ?e) = Some ?block"
    by (simp add: fixture_defs getBlock_def)
  have run: "handleNewBlock h0 ?e ''b1'' emptyKeyPath =
               Inr (mkEditor [node_b1] root_emptytext, keyPath_set emptyKeyPath ''b1'' [0])"
    by (simp add: fixture_defs model_defs)
  have changed: "children (mkEditor [node_b1] root_emptytext) \<noteq> children ?e"
    by (simp add: fixture_defs)
  have tx: "getText (block_external_id ?block) (sharedRoot ?e) = Some []"
    by (simp add: fixture_defs getText_def)
  from text_child_when_text_exists[OF blk run changed]
  show ?thesis unfolding tx by (simp add: fixture_defs)
qed

section \<open>Running a batch again\<close>

text \<open>
  Claim C4, as stated, fails: \<open>handleNewBlock\<close> does not look for the block id in the
  editor, so running the batch that added \<open>b1\<close> a second time inserts a second node.
\<close>

theorem second_run_inserts_block_again:
  "map_sum id children (applyBlocksYEvent h0 (mkEditor [] root_emptytext) (mkEvent [(''b1'', ''add'')]))
     = Inr [node_b1] \<and>
   map_sum id children (applyBlocksYEvent h0 (mkEditor [node_b1] root_emptytext) (mkEvent [(''b1'', ''add'')]))
     = Inr [node_b1, node_b1]"
  by (simp add: fixture_defs model_defs)

text \<open>
  Claim C4, amended, in two parts, each under its own conditions. Deletes: a batch
  without adds whose deleted ids are all absent from the editor leaves the children, the
  shared tree and the selection of the editor as they are; it only logs, a warning for
  each changed key without a value and then an error for each delete. Adds: an add is
  applied again; for a block of the page that the page lists at a position which is not
  beyond the top-level children of the editor, \<open>handleNewBlock\<close> inserts the node of the
  block at that position, whether or not a node with that id is already there.
\<close>

theorem rerun_skips_deletes_repeats_adds:
  "((\<forall>k \<in> set (keysChanged event). \<forall>v. keys event k = Some v \<longrightarrow>
        action v \<noteq> ''add'' \<and>
        (action v = ''delete'' \<longrightarrow> findEntry k 0 (children editor) = None)) \<longrightarrow>
    (\<exists>editor'. applyBlocksYEvent h editor event = Inr editor' \<and>
       children editor' = children editor \<and> sharedRoot editor' = sharedRoot editor \<and>
       selection editor' = selection editor \<and>
       logs editor' =
         logs editor
         @ replicate (length (filter (\<lambda>k. keys event k = None) (keysChanged event)))
             (WARN, ''No value found for key'')
         @ replicate (length (filter (\<lambda>k. map_option action (keys event k) = Some ''delete'')
                                (keysChanged event)))
             (ERROR, ''Block not found for deletion''))) \<and>
   ((getBlock key (sharedRoot editorA) = Some block \<and>
     block_parent block = getPageId (sharedRoot editorA) \<and>
     getBlock (block_parent block) (sharedRoot editorA) = Some parent \<and>
     getChildrenArray (block_children parent) (sharedRoot editorA) = Some parentChildren \<and>
     i < length parentChildren \<and> parentChildren ! i = key \<and> key \<notin> set (take i parentChildren) \<and>
     i \<le> length (children editorA)) \<longrightarrow>
    (\<exists>editor' keyPath'. handleNewBlock h editorA key keyPath = Inr (editor', keyPath') \<and>
       children editor' =
         take i (children editorA) @ newBlockNode h (sharedRoot editorA) block # drop i (children editorA)))"
proof (intro conjI impI)
  assume nodel: "\<forall>k \<in> set (keysChanged event). \<forall>v. keys event k = Some v \<longrightarrow>
        action v \<noteq> ''add'' \<and>
        (action v = ''delete'' \<longrightarrow> findEntry k 0 (children editor) = None)"
  obtain us e1 where c: "collect_updates (keys event) (keysChanged event) editor = (us, e1)"
    by (cases "collect_updates (keys event) (keysChanged event) editor")
  have e1: "children e1 = children editor" "sharedRoot e1 = sharedRoot editor"
           "selection e1 = selection editor"
    using collect_updates_fields[OF c] by simp_all
  have "\<forall>u \<in> set us. u_action u \<noteq> ''add'' \<and>
          (u_action u = ''delete'' \<longrightarrow> findEntry (u_key u) 0 (children e1) = None)"
    using collect_updates_actions[OF c] nodel e1 by metis
  then have "\<forall>u \<in> set (array_sort compare_updates us). u_action u \<noteq> ''add'' \<and>
          (u_action u = ''delete'' \<longrightarrow> findEntry (u_key u) 0 (children e1) = None)"
    by (simp only: set_array_sort_updates)
  from apply_updates_absent[OF this, of h emptyKeyPath] obtain e2 where
    run: "apply_updates h (array_sort compare_updates us) (e1, emptyKeyPath) = Inr (e2, emptyKeyPath)"
    and e2: "children e2 = children e1" "sharedRoot e2 = sharedRoot e1" "selection e2 = selection e1"
    and l2: "logs e2 = logs e1 @ replicate (length (filter (\<lambda>u. u_action u = ''delete'')
                                                      (array_sort compare_updates us)))
                                   (ERROR, ''Block not found for deletion'')"
    by blast
  have res: "applyBlocksYEvent h editor event = Inr e2"
    using c run by (simp add: applyBlocksYEvent_def)
  have "logs e2 = logs editor
         @ replicate (length (filter (\<lambda>k. keys event k = None) (keysChanged event)))
             (WARN, ''No value found for key'')
         @ replicate (length (filter (\<lambda>k. map_option action (keys event k) = Some ''delete'')
                                (keysChanged event)))
             (ERROR, ''Block not found for deletion'')"
    using l2 collect_updates_logs[OF c] collect_updates_deletes[OF c]
    by (simp add: array_sort_deletes_count)
  with res e1 e2 show "\<exists>editor'. applyBlocksYEvent h editor event = Inr editor' \<and>
       children editor' = children editor \<and> sharedRoot editor' = sharedRoot editor \<and>
       selection editor' = selection editor \<and>
       logs editor' =
         logs editor
         @ replicate (length (filter (\<lambda>k. keys event k = None) (keysChanged event)))
             (WARN, ''No value found for key'')
         @ replicate (length (filter (\<lambda>k. map_option action (keys event k) = Some ''delete'')
                                (keysChanged event)))
             (ERROR, ''Block not found for deletion'')"
    by simp
next
  assume add: "getBlock key (sharedRoot editorA) = Some block \<and>
     block_parent block = getPageId (sharedRoot editorA) \<and>
     getBlock (block_parent block) (sharedRoot editorA) = Some parent \<and>
     getChildrenArray (block_children parent) (sharedRoot editorA) = Some parentChildren \<and>
     i < length parentChildren \<and> parentChildren ! i = key \<and> key \<notin> set (take i parentChildren) \<and>
     i \<le> length (children editorA)"
  let ?nd = "newBlockNode h (sharedRoot editorA) block"
  from add have blk: "getBlock key (sharedRoot editorA) = Some block"
    and top: "block_parent block = getPageId (sharedRoot editorA)"
    and par: "getBlock (block_parent block) (sharedRoot editorA) = Some parent"
    and arr: "getChildrenArray (block_children parent) (sharedRoot editorA) = Some parentChildren"
    and len: "i \<le> length (children editorA)" by blast+
  from add have idx: "findIndex key parentChildren = int i"
    using findIndex_first[of i parentChildren key] by simp
  have ipath: "newBlockPath h editorA keyPath (block_parent block) (getPageId (sharedRoot editorA))
                 (findIndex key parentChildren) = Inr (Some [int i])"
    using top idx by (simp add: newBlockPath_def)
  have ins: "insert_node (children editorA) [int i] ?nd =
               Inr (take i (children editorA) @ ?nd # drop i (children editorA))"
    using len by (simp add: insert_node_def splice_insert_in_range)
  from handleNewBlock_inserts[OF blk par arr ipath ins]
  show "\<exists>editor' keyPath'. handleNewBlock h editorA key keyPath = Inr (editor', keyPath') \<and>
       children editor' =
         take i (children editorA) @ newBlockNode h (sharedRoot editorA) block # drop i (children editorA)"
    by blast
qed

theorem rerun_skips_deletes_repeats_adds_witness:
  "(\<exists>editor'. applyBlocksYEvent h0 (mkEditor [] root_emptytext) (mkEvent [(''b1'', ''delete'')])
                = Inr editor' \<and> children editor' = [] \<and>
                logs editor' = [(ERROR, ''Block not found for deletion'')]) \<and>
   (\<exists>editor' keyPath'. handleNewBlock h0 (mkEditor [node_b1] root_emptytext) ''b1'' emptyKeyPath
                = Inr (editor', keyPath') \<and> children editor' = [node_b1, node_b1])"
proof -
  let ?eD = "mkEditor [] root_emptytext"
  let ?ev = "mkEvent [(''b1'', ''delete'')]"
  let ?eA = "mkEditor [node_b1] root_emptytext"
  let ?block = "mkBlock ''b1'' ''paragraph'' ''pg'' (Some ''t1'')"
  let ?parent = "mkBlock ''pg'' ''page'' [] None"
  note both = rerun_skips_deletes_repeats_adds[where event = ?ev and editor = ?eD and h = h0
                  and key = "''b1''" and editorA = ?eA and block = ?block and parent = ?parent
                  and parentChildren = "[''b1'']" and i = 0 and keyPath = emptyKeyPath]
  have nodel: "\<forall>k \<in> set (keysChanged ?ev). \<forall>v. keys ?ev k = Some v \<longrightarrow>
                    action v \<noteq> ''add'' \<and>
                    (action v = ''delete'' \<longrightarrow> findEntry k 0 (children ?eD) = None)"
    by (simp add: fixture_defs)
  have counts: "length (filter (\<lambda>k. keys ?ev k = None) (keysChanged ?ev)) = 0"
               "length (filter (\<lambda>k. map_option action (keys ?ev k) = Some ''delete'') (keysChanged ?ev)) = 1"
    by (simp_all add: mkEvent_def)
  have fieldsD: "children ?eD = []" "logs ?eD = []" by (simp_all add: mkEditor_def)
  from both[THEN conjunct1, THEN mp, OF nodel]
  have a: "\<exists>editor'. applyBlocksYEvent h0 ?eD ?ev = Inr editor' \<and> children editor' = [] \<and>
                logs editor' = [(ERROR, ''Block not found for deletion'')]"
    unfolding counts fieldsD by auto
  have add: "getBlock ''b1'' (sharedRoot ?eA) = Some ?block \<and>
     block_parent ?block = getPageId (sharedRoot ?eA) \<and>
     getBlock (block_parent ?block) (sharedRoot ?eA) = Some ?parent \<and>
     getChildrenArray (block_children ?parent) (sharedRoot ?eA) = Some [''b1''] \<and>
     0 < length [''b1''] \<and> [''b1''] ! 0 = ''b1'' \<and> ''b1'' \<notin> set (take 0 [''b1'']) \<and>
     0 \<le> length (children ?eA)"
    by (simp add: fixture_defs getBlock_def getPageId_def getChildrenArray_def)
  have nd: "newBlockNode h0 (sharedRoot ?eA) ?block = node_b1"
    by (simp add: fixture_defs model_defs)
  have fieldsA: "children ?eA = [node_b1]" by (simp add: mkEditor_def)
  from both[THEN conjunct2, THEN mp, OF add]
  have b: "\<exists>editor' keyPath'. handleNewBlock h0 ?eA ''b1'' emptyKeyPath = Inr (editor', keyPath') \<and>
             children editor' = [node_b1, node_b1]"
    unfolding nd fieldsA by simp
  from a b show ?thesis by blast
qed

section \<open>The update action\<close>

text \<open>
  Claim C6, as stated, fails: the branch of the action \<open>update\<close> is empty, so the data
  of the node stays as it was while the data of the block has changed.
\<close>

theorem update_tag_leaves_data_stale:
  "map_option (dataStringTOJson h0 \<circ> block_data) (getBlock ''b1'' (sharedRoot ed_todo)) = Some [(''raw'', ''checked'')] \<and>
   map_sum id (map node_data \<circ> children) (applyBlocksYEvent h0 ed_todo (mkEvent [(''b1'', ''update'')])) = Inr [[]]"
  by (simp add: fixture_defs model_defs)

text \<open>
  Claim C6, amended: a block-map event whose changed keys are all tagged \<open>update\<close>
  changes nothing in the editor: neither the data of a node, nor its children, nor its
  position, nor the shared tree or the selection.
\<close>

theorem update_action_is_noop:
  assumes "\<forall>k \<in> set (keysChanged event). \<forall>v. keys event k = Some v \<longrightarrow> action v = ''update''"
  shows "\<exists>editor'. applyBlocksYEvent h editor event = Inr editor' \<and>
           children editor' = children editor \<and> sharedRoot editor' = sharedRoot editor \<and>
           selection editor' = selection editor"
proof -
  obtain us e1 where c: "collect_updates (keys event) (keysChanged event) editor = (us, e1)"
    by (cases "collect_updates (keys event) (keysChanged event) editor")
  have all: "\<forall>u \<in> set us. u_action u = ''update''"
    using collect_updates_actions[OF c] assms by metis
  then have "\<forall>u \<in> set (array_sort compare_updates us). u_action u \<noteq> ''add'' \<and> u_action u \<noteq> ''delete''"
    by (auto simp: array_sort_deletes_first)
  then have "apply_updates h (array_sort compare_updates us) (e1, emptyKeyPath) = Inr (e1, emptyKeyPath)"
    by (rule apply_updates_noop)
  then have "applyBlocksYEvent h editor event = Inr e1"
    using c by (simp add: applyBlocksYEvent_def)
  then show ?thesis using collect_updates_fields[OF c] by simp
qed

theorem update_action_is_noop_witness:
  "\<exists>editor'. applyBlocksYEvent h0 ed_todo (mkEvent [(''b1'', ''update'')]) = Inr editor' \<and>
     children editor' = children ed_todo \<and> sharedRoot editor' = sharedRoot ed_todo \<and>
     selection editor' = selection ed_todo"
proof -
  have upd: "\<forall>k \<in> set (keysChanged (mkEvent [(''b1'', ''update'')])).
               \<forall>v. keys (mkEvent [(''b1'', ''update'')]) k = Some v \<longrightarrow> action v = ''update''"
    by (simp add: mkEvent_def)
  from update_action_is_noop[OF upd] show ?thesis .
qed

section \<open>An add whose parent is not in the editor\<close>

text \<open>
  Where the guards of \<open>handleNewBlock\<close> reach: with the block, its parent and the
  children array of the parent in the shared tree, the parent neither the page nor in the
  editor, and nothing usable read from the cache under the parent id, the add is a logged
  skip that leaves the editor and the cache as they are, and the loop goes on with the
  remaining updates.
\<close>

lemma uncached_missing_parent_is_skipped:
  assumes blk: "getBlock key (sharedRoot editor) = Some block"
      and par: "getBlock (block_parent block) (sharedRoot editor) = Some parent"
      and arr: "getChildrenArray (block_children parent) (sharedRoot editor) = Some parentChildren"
      and nest: "block_parent block \<noteq> getPageId (sharedRoot editor)"
      and absent: "findEntry (block_parent block) 0 (children editor) = None"
      and nocache: "keyPath_get h keyPath (block_parent block) = JsUndefined \<or>
                    keyPath_get h keyPath (block_parent block) = JsFalsy"
  shows "handleNewBlock h editor key keyPath =
           Inr (log_msg ERROR ''Parent block not found in Slate editor'' editor, keyPath)"
    and "apply_updates h (\<lparr>u_key = key, u_action = ''add'', u_value = v\<rparr> # us) (editor, keyPath) =
           apply_updates h us (log_msg ERROR ''Parent block not found in Slate editor'' editor, keyPath)"
proof -
  from nest absent nocache
  have "newBlockPath h editor keyPath (block_parent block) (getPageId (sharedRoot editor))
          (findIndex key parentChildren) = Inr None"
    by (auto simp: newBlockPath_def)
  with blk par arr
  show a: "handleNewBlock h editor key keyPath =
           Inr (log_msg ERROR ''Parent block not found in Slate editor'' editor, keyPath)"
    by (simp add: handleNewBlock_def Let_def)
  then show "apply_updates h (\<lparr>u_key = key, u_action = ''add'', u_value = v\<rparr> # us) (editor, keyPath) =
           apply_updates h us (log_msg ERROR ''Parent block not found in Slate editor'' editor, keyPath)"
    by simp
qed

text \<open>With a path cached under the parent id, that path is extended by the index plus one.\<close>

lemma cached_parent_path_is_used:
  assumes nest: "parentId \<noteq> pageId"
      and absent: "findEntry parentId 0 (children editor) = None"
      and cached: "keyPath_get h keyPath parentId = JsPath cached"
  shows "newBlockPath h editor keyPath parentId pageId index = Inr (Some (cached @ [index + 1]))"
  using nest absent cached by (simp add: newBlockPath_def)

text \<open>
  Claim C8 is what the guards and the \<open>try\<close> block of \<open>handleNewBlock\<close> are written
  for, but one read is outside them: \<open>parentChildren.toArray()\<close> is called before the
  parent is looked up in the editor. The parent \<open>P\<close> of the added block \<open>B\<close> is in
  the block map, is not the page, is not in the editor and has no cached path; its children
  array is missing. The add throws instead of being skipped, the exception leaves the loop
  over the batch, and the add of \<open>C\<close> that follows is never applied, although alone it
  inserts \<open>C\<close>.
\<close>

theorem missing_children_array_aborts_batch:
  "getBlock ''P'' (sharedRoot ed_noarray) = Some (mkBlock ''P'' ''toggle_list'' ''pg'' None) \<and>
   ''P'' \<noteq> getPageId (sharedRoot ed_noarray) \<and>
   findEntry ''P'' 0 (children ed_noarray) = None \<and>
   keyPath_get h0 emptyKeyPath ''P'' = JsUndefined \<and>
   handleNewBlock h0 ed_noarray ''B'' emptyKeyPath =
     Inl (Thrown ''TypeError: cannot read toArray of undefined'') \<and>
   applyBlocksYEvent h0 ed_noarray ev_noarray =
     Inl (Thrown ''TypeError: cannot read toArray of undefined'') \<and>
   translateYEvents h0 ed_noarray [ev_noarray] =
     Inl (Thrown ''TypeError: cannot read toArray of undefined'') \<and>
   map_sum id children (applyBlocksYEvent h0 ed_noarray (mkEvent [(''C'', ''add'')])) = Inr [leaf ''C'']"
  by (simp add: fixture_defs model_defs translateYEvent_def findEntry.simps)

text \<open>
  The cache of paths is read before anything was written to it, so a parent id that is a
  name of \<open>Object.prototype\<close> reads a function, and spreading it throws, again outside
  the \<open>try\<close> block.
\<close>

lemma inherited_parent_id_throws:
  "handleNewBlock h0 (mkEditor [] root_inherited) ''B'' emptyKeyPath =
     Inl (Thrown ''TypeError: keyPath[parentId] is not iterable'')"
  by (simp add: fixture_defs model_defs findEntry.simps)

section \<open>The index of a nested insertion\<close>




section \<open>Delete backward at a collapsed cursor\<close>

text \<open>
  Claim C2: for a collapsed selection whose block entry and block are found, the result
  of \<open>deleteBlockBackward\<close> is that of the first guard that matches, in this order:
  a list-type block that is not a paragraph and whose parent is a quote is converted; a
  block at a path longer than one that the lift handler reports as lifted is lifted, and
  nothing else is done; any other block that is not a paragraph is converted; otherwise
  the block is merged into the preceding one. The lift handler is only called when the
  first guard fails and the path is longer than one, and the later guards work on the
  editor that it returns.
\<close>

theorem deleteBlockBackward_guard_order:
  assumes sel: "getSelectionOrThrow editor at = Inr newAt"
      and col: "isCollapsed newAt"
      and ent: "getBlockEntry c editor (anchor newAt) = Some (node, bpath)"
      and bid: "node_blockId node = Some blockId"
      and blk: "getBlock blockId (sharedRoot editor) = Some block"
      and lift: "handleLiftBlockOnBackspaceAndEnterWithTxn c editor block (anchor newAt) =
                   Inr (liftable, lifted)"
  shows "deleteBlockBackward c editor at =
           (let editor1 = (if 1 < length bpath then lifted else editor)
            in first_guard
                 [(block_type block \<noteq> BlockType_Paragraph \<and>
                   block_type block \<in> set (LIST_BLOCK_TYPES c) \<and>
                   map_option block_type (getParent blockId (sharedRoot editor)) = Some BlockType_QuoteBlock,
                   handleNonParagraphBlockBackspaceAndEnterWithTxn c editor block (anchor newAt)),
                  (1 < length bpath \<and> liftable, Inr lifted),
                  (block_type block \<noteq> BlockType_Paragraph,
                   handleNonParagraphBlockBackspaceAndEnterWithTxn c editor1 block (anchor newAt))]
                 (handleMergeBlockBackwardWithTxn c editor1 node (anchor newAt)))"
  using sel col ent bid blk lift
  by (auto simp: deleteBlockBackward_def getBlockOfNode_def isQuoteListCase_def Let_def)

theorem deleteBlockBackward_guard_order_witness:
  "\<exists>editor'. deleteBlockBackward c0 (ed_quote\<lparr>selection := Some (cursor [0, 1, 0, 0] 0)\<rparr>) None = Inr editor' \<and>
     map_option block_parent (getBlock ''X'' (sharedRoot editor')) = Some ''pg'' \<and>
     children editor' = children ed_quote"
proof -
  let ?e = "ed_quote\<lparr>selection := Some (cursor [0, 1, 0, 0] 0)\<rparr>"
  let ?block = "mkBlock ''X'' ''paragraph'' ''Q'' (Some ''tX'')"
  let ?lifted = "setBlock (?block\<lparr>block_parent := ''pg''\<rparr>) ?e"
  have sel: "getSelectionOrThrow ?e None = Inr (cursor [0, 1, 0, 0] 0)"
    by (simp add: getSelectionOrThrow_def)
  have col: "isCollapsed (cursor [0, 1, 0, 0] 0)" by (simp add: isCollapsed_def cursor_def)
  have ent: "getBlockEntry c0 ?e (anchor (cursor [0, 1, 0, 0] 0)) = Some (node_X, [0, 1])"
    by (simp add: fixture_defs command_defs)
  have bid: "node_blockId node_X = Some ''X''" by (simp add: node_X_def)
  have blk: "getBlock ''X'' (sharedRoot ?e) = Some ?block"
    by (simp add: fixture_defs command_defs getBlock_def)
  have lift: "handleLiftBlockOnBackspaceAndEnterWithTxn c0 ?e ?block (anchor (cursor [0, 1, 0, 0] 0)) =
                Inr (True, ?lifted)"
    by (simp add: fixture_defs command_defs getBlock_def getPageId_def)
  have res: "map_option block_parent (getBlock ''X'' (sharedRoot ?lifted)) = Some ''pg''"
            "children ?lifted = children ed_quote"
    by (simp_all add: fixture_defs command_defs getBlock_def)
  from deleteBlockBackward_guard_order[OF sel col ent bid blk lift]
  have "deleteBlockBackward c0 ?e None = Inr ?lifted"
    by (simp add: fixture_defs command_defs)
  with res show ?thesis by blast
qed

text \<open>
  Claim C10: for a collapsed selection, when the block entry at the cursor is not found,
  or the block of the found node is not in the shared root, \<open>deleteBlockBackward\<close>
  returns normally with one more warning in the log and with the editable tree, the shared
  tree and the selection as they were.
\<close>

theorem deleteBlockBackward_unresolved_block:
  assumes sel: "getSelectionOrThrow editor at = Inr newAt"
      and col: "isCollapsed newAt"
      and unresolved:
        "getBlockEntry c editor (anchor newAt) = None \<or>
         (\<exists>node bpath. getBlockEntry c editor (anchor newAt) = Some (node, bpath) \<and>
                       getBlockOfNode node (sharedRoot editor) = None)"
  shows "\<exists>msg. deleteBlockBackward c editor at = Inr (log_msg WARN msg editor) \<and>
           children (log_msg WARN msg editor) = children editor \<and>
           sharedRoot (log_msg WARN msg editor) = sharedRoot editor \<and>
           selection (log_msg WARN msg editor) = selection editor"
proof -
  have same: "children (log_msg WARN msg editor) = children editor \<and>
           sharedRoot (log_msg WARN msg editor) = sharedRoot editor \<and>
           selection (log_msg WARN msg editor) = selection editor" for msg
    by (simp add: log_msg_def)
  from unresolved show ?thesis
  proof
    assume "getBlockEntry c editor (anchor newAt) = None"
    with sel col have "deleteBlockBackward c editor at = Inr (log_msg WARN ''Block not found'' editor)"
      by (simp add: deleteBlockBackward_def Let_def)
    with same show ?thesis by blast
  next
    assume "\<exists>node bpath. getBlockEntry c editor (anchor newAt) = Some (node, bpath) \<and>
                       getBlockOfNode node (sharedRoot editor) = None"
    with sel col have "deleteBlockBackward c editor at =
                         Inr (log_msg WARN ''Block no longer exists in shared root'' editor)"
      by (auto simp: deleteBlockBackward_def Let_def)
    with same show ?thesis by blast
  qed
qed

theorem deleteBlockBackward_unresolved_block_witness:
  "map_option (node_blockId \<circ> fst) (getBlockEntry c0 ed_stale (anchor (cursor [0, 0, 0] 0))) = Some (Some ''gone'') \<and>
   getBlock ''gone'' (sharedRoot ed_stale) = None \<and>
   (\<exists>msg. deleteBlockBackward c0 ed_stale None = Inr (log_msg WARN msg ed_stale) \<and>
      children (log_msg WARN msg ed_stale) = children ed_stale \<and>
      sharedRoot (log_msg WARN msg ed_stale) = sharedRoot ed_stale \<and>
      selection (log_msg WARN msg ed_stale) = selection ed_stale)"
proof -
  have sel: "getSelectionOrThrow ed_stale None = Inr (cursor [0, 0, 0] 0)"
    by (simp add: getSelectionOrThrow_def ed_stale_def)
  have col: "isCollapsed (cursor [0, 0, 0] 0)" by (simp add: isCollapsed_def cursor_def)
  have ent: "map_option (node_blockId \<circ> fst) (getBlockEntry c0 ed_stale (anchor (cursor [0, 0, 0] 0)))
               = Some (Some ''gone'')"
    by (simp add: fixture_defs command_defs)
  have gone: "getBlock ''gone'' (sharedRoot ed_stale) = None"
    by (simp add: fixture_defs command_defs getBlock_def)
  have unresolved:
        "getBlockEntry c0 ed_stale (anchor (cursor [0, 0, 0] 0)) = None \<or>
         (\<exists>node bpath. getBlockEntry c0 ed_stale (anchor (cursor [0, 0, 0] 0)) = Some (node, bpath) \<and>
                       getBlockOfNode node (sharedRoot ed_stale) = None)"
    by (simp add: fixture_defs command_defs getBlock_def)
  from deleteBlockBackward_unresolved_block[OF sel col unresolved] ent gone
  show ?thesis by blast
qed

section \<open>The selection after indent and outdent\<close>

text \<open>
  Claim C7: when the recombined selection is missing or not valid, the selection set by
  \<open>tabEvent\<close> is the first that succeeds among: the nearest valid selection from the
  recombined one, the nearest valid selection from the original one, the start of the new
  start block if it is a valid selection, any valid selection of the document. If all
  four fail, the selection stays as it was (unset, since the command has deselected
  before moving the blocks) and the failure is the last warning of the log. Neither tree
  is changed.
\<close>

theorem tabEvent_fallback_order:
  assumes new: "tabEvent_newSelection c editor nsb neb sp so ep eo = (newSelection, editor1)"
      and invalid: "\<not> calculated_valid c editor1 newSelection"
  shows "let eF = log_msg WARN ''Calculated selection invalid, trying fallback strategies'' editor1;
             s1 = (case newSelection of
                     None \<Rightarrow> None
                   | Some calculated \<Rightarrow> findNearestValidSelection c eF (Some calculated));
             s2 = findNearestValidSelection c eF (Some originalSelection);
             s3 = (if nsb = [] then None
                   else (case editor_start c eF nsb of
                           Inl e \<Rightarrow> None
                         | Inr p \<Rightarrow> if isValidSelection c eF \<lparr>anchor = p, focus = p\<rparr>
                                    then Some \<lparr>anchor = p, focus = p\<rparr> else None));
             e3 = (if nsb \<noteq> [] \<and> isl (editor_start c eF nsb)
                   then log_msg WARN ''Failed to select start of block'' eF else eF);
             s4 = findNearestValidSelection c e3 None;
             result = tabEvent_restoreSelection c editor nsb neb sp so ep eo originalSelection
         in selection result =
              (case first_success [s1, s2, s3, s4] of Some s \<Rightarrow> Some s | None \<Rightarrow> selection editor) \<and>
            (first_success [s1, s2, s3, s4] = None \<longrightarrow>
               logs result =
                 logs e3 @ [(WARN, ''Could not establish any valid selection after tab operation'')]) \<and>
            children result = children editor \<and> sharedRoot result = sharedRoot editor"
proof -
  define eF where "eF = log_msg WARN ''Calculated selection invalid, trying fallback strategies'' editor1"
  define s1 where "s1 = (case newSelection of
                     None \<Rightarrow> None
                   | Some calculated \<Rightarrow> findNearestValidSelection c eF (Some calculated))"
  define s2 where "s2 = findNearestValidSelection c eF (Some originalSelection)"
  define s3 where "s3 = (if nsb = [] then None
                   else (case editor_start c eF nsb of
                           Inl e \<Rightarrow> None
                         | Inr p \<Rightarrow> if isValidSelection c eF \<lparr>anchor = p, focus = p\<rparr>
                                    then Some \<lparr>anchor = p, focus = p\<rparr> else None))"
  define e3 where "e3 = (if nsb \<noteq> [] \<and> isl (editor_start c eF nsb)
                   then log_msg WARN ''Failed to select start of block'' eF else eF)"
  define s4 where "s4 = findNearestValidSelection c e3 None"
  define result where "result = tabEvent_restoreSelection c editor nsb neb sp so ep eo originalSelection"
  have fields1: "children editor1 = children editor" "sharedRoot editor1 = sharedRoot editor"
                "selection editor1 = selection editor"
    using tabEvent_newSelection_fields[OF new] by simp_all
  have fieldsF: "children eF = children editor" "sharedRoot eF = sharedRoot editor"
                "selection eF = selection editor"
    using fields1 by (simp_all add: eF_def log_msg_def)
  have fields3: "children e3 = children editor" "sharedRoot e3 = sharedRoot editor"
                "selection e3 = selection editor"
    using fieldsF by (simp_all add: e3_def log_msg_def)
  have start: "tabEvent_startOfBlock c eF nsb = (map_option anchor s3, e3)"
    by (cases "editor_start c eF nsb") (simp_all add: tabEvent_startOfBlock_def s3_def e3_def)
  have s3_point: "s3 = Some r \<Longrightarrow> r = \<lparr>anchor = anchor r, focus = anchor r\<rparr>" for r
    by (cases "editor_start c eF nsb") (auto simp: s3_def split: if_splits)
  have res: "result =
      (case s1 of
         Some r \<Rightarrow> select_range eF r
       | None \<Rightarrow>
           (case s2 of
              Some r \<Rightarrow> select_range eF r
            | None \<Rightarrow>
                (case s3 of
                   Some r \<Rightarrow> select_point e3 (anchor r)
                 | None \<Rightarrow>
                     (case s4 of
                        Some r \<Rightarrow> select_range e3 r
                      | None \<Rightarrow>
                          log_msg WARN ''Could not establish any valid selection after tab operation'' e3))))"
    unfolding result_def tabEvent_restoreSelection_def new
    using invalid start
    by (cases s3) (simp_all add: tabEvent_applySelection_def Let_def eF_def[symmetric] s1_def[symmetric]
                     s2_def s4_def split: option.splits)
  have goal: "selection result =
              (case first_success [s1, s2, s3, s4] of Some s \<Rightarrow> Some s | None \<Rightarrow> selection editor) \<and>
            (first_success [s1, s2, s3, s4] = None \<longrightarrow>
               logs result =
                 logs e3 @ [(WARN, ''Could not establish any valid selection after tab operation'')]) \<and>
            children result = children editor \<and> sharedRoot result = sharedRoot editor"
  proof (cases s1)
    case (Some r)
    with res fieldsF show ?thesis by (simp add: select_range_def)
  next
    case n1: None
    show ?thesis
    proof (cases s2)
      case (Some r)
      with res n1 fieldsF show ?thesis by (simp add: select_range_def)
    next
      case n2: None
      show ?thesis
      proof (cases s3)
        case (Some r)
        with res n1 n2 fields3 s3_point[OF Some] show ?thesis by (simp add: select_point_def)
      next
        case n3: None
        show ?thesis
        proof (cases s4)
          case (Some r)
          with res n1 n2 n3 fields3 show ?thesis by (simp add: select_range_def)
        next
          case None
          with res n1 n2 n3 fields3 show ?thesis by (simp add: log_msg_def)
        qed
      qed
    qed
  qed
  then show ?thesis
    unfolding Let_def eF_def s1_def s2_def s3_def e3_def s4_def result_def .
qed

theorem tabEvent_fallback_order_witness:
  "selection (tabEvent_restoreSelection c0 ed_quote [0, 1] [0, 1] [0, 0] 0 [0, 0] 0 (cursor [7, 0, 0] 0))
     = Some (cursor [0, 1, 0, 0] 0) \<and>
   selection (tabEvent_restoreSelection c0 (mkEditor [] root_quote) [] [] [0, 0] 0 [0, 0] 0 (cursor [7, 0, 0] 0))
     = None \<and>
   logs (tabEvent_restoreSelection c0 (mkEditor [] root_quote) [] [] [0, 0] 0 [0, 0] 0 (cursor [7, 0, 0] 0))
     = [(WARN, ''Calculated selection invalid, trying fallback strategies''),
        (WARN, ''Could not establish any valid selection after tab operation'')]"
proof -
  let ?e1 = "log_msg WARN ''Error constructing new selection paths'' ed_quote"
  let ?e2 = "mkEditor [] root_quote"
  have new1: "tabEvent_newSelection c0 ed_quote [0, 1] [0, 1] [0, 0] 0 [0, 0] 0 = (None, ?e1)"
    by (simp add: tabEvent_newSelection_def fixture_defs command_defs)
  have inv1: "\<not> calculated_valid c0 ?e1 None" by (simp add: calculated_valid_def)
  have new2: "tabEvent_newSelection c0 ?e2 [] [] [0, 0] 0 [0, 0] 0 = (None, ?e2)"
    by (simp add: tabEvent_newSelection_def fixture_defs command_defs)
  have inv2: "\<not> calculated_valid c0 ?e2 None" by (simp add: calculated_valid_def)
  note t1 = tabEvent_fallback_order[OF new1 inv1, of "cursor [7, 0, 0] 0", unfolded Let_def]
  note t2 = tabEvent_fallback_order[OF new2 inv2, of "cursor [7, 0, 0] 0", unfolded Let_def]
  have a: "selection (tabEvent_restoreSelection c0 ed_quote [0, 1] [0, 1] [0, 0] 0 [0, 0] 0 (cursor [7, 0, 0] 0))
     = Some (cursor [0, 1, 0, 0] 0)"
    by (rule trans[OF t1[THEN conjunct1]]) (simp add: fixture_defs command_defs log_msg_def)
  have b: "selection (tabEvent_restoreSelection c0 ?e2 [] [] [0, 0] 0 [0, 0] 0 (cursor [7, 0, 0] 0)) = None"
    by (rule trans[OF t2[THEN conjunct1]]) (simp add: fixture_defs command_defs log_msg_def)
  have c: "logs (tabEvent_restoreSelection c0 ?e2 [] [] [0, 0] 0 [0, 0] 0 (cursor [7, 0, 0] 0))
     = [(WARN, ''Calculated selection invalid, trying fallback strategies''),
        (WARN, ''Could not establish any valid selection after tab operation'')]"
    by (rule trans[OF t2[THEN conjunct2, THEN conjunct1, THEN mp]])
       (simp_all add: fixture_defs command_defs log_msg_def)
  from a b c show ?thesis by (simp only: simp_thms)
qed

section \<open>Deleting the last child\<close>

text \<open>
  Claim C5, as stated, fails: the test after the removal reads the top-level children of
  the editor, not the children of the parent. Deleting the only child \<open>X\<close> of the quote
  \<open>Q\<close> leaves \<open>Q\<close> with no child, in the shared tree and in the editor, and no
  placeholder is created.
\<close>

theorem nested_container_left_without_children:
  "getParent ''X'' (sharedRoot ed_quote) = Some (mkBlock ''Q'' ''quote'' ''pg'' (Some ''tQ'')) \<and>
   getChildrenArray ''Q'' (sharedRoot ed_quote) = Some [''X''] \<and>
   map_sum id (getChildrenArray ''Q'' \<circ> sharedRoot) (deleteBlock h0 c0 ed_quote ''X'' ''new'')
     = Inr (Some []) \<and>
   map_sum id (getBlock ''new'' \<circ> sharedRoot) (deleteBlock h0 c0 ed_quote ''X'' ''new'')
     = Inr None \<and>
   map_sum id children (deleteBlock h0 c0 ed_quote ''X'' ''new'')
     = Inr [Element (Some ''Q'') ''quote'' [] None [textElement ''tQ'' ''q'']]"
  by (simp add: fixture_defs command_defs model_defs delete_defs findEntry.simps getBlock_def)

text \<open>
  Claim C5, amended: \<open>deleteBlock\<close> inserts the placeholder when the editor has no
  top-level node left after the removal. When the only child of the page is deleted (and
  the editor shows exactly that block), the block is removed and the page has exactly
  one child afterwards, a new paragraph with empty data and an empty text, which the
  editor shows as its only node.
\<close>

theorem deleteBlock_last_page_child:
  assumes blk: "getBlock blockId (sharedRoot editor) = Some block"
      and par: "getBlock (block_parent block) (sharedRoot editor) = Some page"
      and pid: "block_id page = block_parent block"
      and pg: "block_parent block = getPageId (sharedRoot editor)"
      and pty: "block_type page = BlockType_Page"
      and only: "getChildrenArray (block_children page) (sharedRoot editor) = Some [blockId]"
      and ed: "children editor = [n]" "node_blockId n = Some blockId"
      and prev: "getPreviousSiblingBlock c (sharedRoot editor) (Some block) = Inr None"
      and fresh: "newId \<noteq> block_id page" "newId \<noteq> blockId"
      and self: "blockId \<noteq> block_parent block"
  shows "\<exists>editor'. deleteBlock h c editor blockId newId = Inr editor' \<and>
           getBlock blockId (sharedRoot editor') = None \<and>
           getChildrenArray (block_children page) (sharedRoot editor') = Some [newId] \<and>
           getBlock newId (sharedRoot editor') =
             Some \<lparr>block_id = newId, block_type = BlockType_Paragraph, block_parent = block_id page,
                   block_children = newId, block_data = ''{}'', block_external_id = Some newId\<rparr> \<and>
           children editor' =
             [Element (Some newId) BlockType_Paragraph (dataStringTOJson h ''{}'') None
                [Element None YjsEditorKey_text [] (Some newId) [Text [] []]]]"
proof -
  let ?root = "sharedRoot editor"
  let ?nb = "\<lparr>block_id = newId, block_type = BlockType_Paragraph, block_parent = block_id page,
                   block_children = newId, block_data = ''{}'', block_external_id = Some newId\<rparr>"
  let ?nd = "Element (Some newId) BlockType_Paragraph (dataStringTOJson h ''{}'') None
                [Element None YjsEditorKey_text [] (Some newId) [Text [] []]]"
  define root1 where "root1 = deleteBlock_shared blockId ?root"
  define root2 where "root2 = addBlock_shared newId BlockType_Paragraph ''{}'' page 0 root1"
  define e1 where "e1 = (deselect editor)\<lparr>sharedRoot := root1\<rparr>"
  define e2 where "e2 = e1\<lparr>children := []\<rparr>"
  define e3 where "e3 = e2\<lparr>sharedRoot := root2\<rparr>"
  have gp: "getParent blockId ?root = Some page"
    using blk par by (simp add: getParent_def)
  have cur: "deleteBlock_cursor c editor page blockId = Some (deselect editor)"
    using blk prev pty by (simp add: deleteBlock_cursor_def)
  obtain b t d x cs where n: "n = Element b t d x cs" using ed(2) by (cases n) simp_all
  with ed(2) have b: "b = Some blockId" by simp
  have ch1: "children e1 = [n]" using ed(1) by (simp add: e1_def deselect_def)
  have del: "handleDeleteNode e1 blockId = e2"
    using ed(1) n b
    by (simp add: e2_def e1_def deselect_def handleDeleteNode_def apply_remove_node_def
                  selection_after_remove_def remove_node_def splice_remove_def splice_start_def
                  findEntry.simps)
  have ev1: "applyBlocksYEvent h e1 (blockMapEvent blockId ''delete'' page) = Inr e2"
    using del by (simp add: applyBlocksYEvent_def blockMapEvent_def array_sort_single)
  have ex1: "executeOperations h (deselect editor) (deleteBlock_shared blockId)
               [blockMapEvent blockId ''delete'' page] = Inr e2"
    unfolding executeOperations_def translate_block_map_event
    using ev1 by (simp add: e1_def root1_def deselect_def)
  have root1: "root1 = ?root\<lparr>blocks := (blocks ?root)(blockId := None),
                 children_map := (children_map ?root)(block_children page \<mapsto> [])\<rparr>"
    using gp only by (simp add: root1_def deleteBlock_shared_def)
  have arr1: "getChildrenArray (block_children page) root1 = Some []"
    unfolding root1 by (simp add: getChildrenArray_def)
  have root2: "root2 = root1\<lparr>blocks := (blocks root1)(newId \<mapsto> ?nb),
          children_map := (children_map root1)(newId \<mapsto> [], block_children page \<mapsto> [newId]),
          text_map := (text_map root1)(newId \<mapsto> [])\<rparr>"
    using arr1 by (simp add: root2_def addBlock_shared_def splice_insert_def splice_start_def)
  have g_new: "getBlock newId root2 = Some ?nb" unfolding root2 by (simp add: getBlock_def)
  have g_old: "getBlock blockId root2 = None"
    using fresh(2) unfolding root2 root1 by (simp add: getBlock_def)
  have g_page: "getBlock (block_id page) root2 = Some page"
    using fresh(1) self pid par unfolding root2 root1 by (simp add: getBlock_def)
  have arr2: "getChildrenArray (block_children page) root2 = Some [newId]"
    unfolding root2 by (simp add: getChildrenArray_def)
  have pg2: "getPageId root2 = block_id page"
    using pg pid unfolding root2 root1 by (simp add: getPageId_def)
  have node2: "newBlockNode h root2 ?nb = ?nd"
    unfolding root2
    by (simp add: newBlockNode_def newTextNode_def getText_def blockToSlateNode_def)
  have ch3: "children e3 = []" "sharedRoot e3 = root2" by (simp_all add: e3_def e2_def)
  have sel3: "selection e3 = None" by (simp add: e3_def e2_def e1_def deselect_def)
  have same3: "e3\<lparr>children := [?nd], selection := None\<rparr> = e3\<lparr>children := [?nd]\<rparr>"
    by (simp add: e3_def e2_def e1_def deselect_def)
  have new: "handleNewBlock h e3 newId emptyKeyPath =
               Inr (e3\<lparr>children := [?nd]\<rparr>, keyPath_set emptyKeyPath newId [0])"
    unfolding handleNewBlock_def ch3
    using g_new g_page arr2 pg2 node2 sel3 same3
    by (simp add: newBlockPath_def apply_insert_node_def selection_after_insert_def ch3
                  insert_node_def splice_insert_def splice_start_def)
  have ev2: "applyBlocksYEvent h e3 (blockMapEvent newId ''add'' page) = Inr (e3\<lparr>children := [?nd]\<rparr>)"
    using new by (simp add: applyBlocksYEvent_def blockMapEvent_def array_sort_single)
  have ch2: "children e2 = []" "sharedRoot e2 = root1" by (simp_all add: e2_def e1_def)
  have add: "addBlock h e2 BlockType_Paragraph ''{}'' page 0 newId = Inr (e3\<lparr>children := [?nd]\<rparr>)"
    unfolding addBlock_def executeOperations_def translate_block_map_event
    using ev2 ch2 by (simp add: e3_def root2_def)
  have run: "deleteBlock h c editor blockId newId = Inr (e3\<lparr>children := [?nd]\<rparr>)"
    unfolding deleteBlock_def using gp cur ex1 add ch2 by simp
  have "sharedRoot (e3\<lparr>children := [?nd]\<rparr>) = root2" "children (e3\<lparr>children := [?nd]\<rparr>) = [?nd]"
    using ch3 by simp_all
  with run g_old arr2 g_new show ?thesis by simp
qed

theorem deleteBlock_last_page_child_witness:
  "\<exists>editor'. deleteBlock h0 c0 (mkEditor [node_b1] root_emptytext) ''b1'' ''new'' = Inr editor' \<and>
     getBlock ''b1'' (sharedRoot editor') = None \<and>
     getChildrenArray ''pg'' (sharedRoot editor') = Some [''new''] \<and>
     children editor' =
       [Element (Some ''new'') ''paragraph'' [(''raw'', ''{}'')] None
          [Element None ''text'' [] (Some ''new'') [Text [] []]]]"
proof -
  let ?e = "mkEditor [node_b1] root_emptytext"
  let ?block = "mkBlock ''b1'' ''paragraph'' ''pg'' (Some ''t1'')"
  let ?page = "mkBlock ''pg'' ''page'' [] None"
  have blk: "getBlock ''b1'' (sharedRoot ?e) = Some ?block"
    by (simp add: fixture_defs getBlock_def)
  have par: "getBlock (block_parent ?block) (sharedRoot ?e) = Some ?page"
    by (simp add: fixture_defs getBlock_def)
  have pid: "block_id ?page = block_parent ?block" by (simp add: mkBlock_def)
  have pg: "block_parent ?block = getPageId (sharedRoot ?e)"
    by (simp add: fixture_defs getPageId_def)
  have pty: "block_type ?page = BlockType_Page" by (simp add: mkBlock_def BlockType_Page_def)
  have only: "getChildrenArray (block_children ?page) (sharedRoot ?e) = Some [''b1'']"
    by (simp add: fixture_defs getChildrenArray_def)
  have ed: "children ?e = [node_b1]" "node_blockId node_b1 = Some ''b1''"
    by (simp_all add: fixture_defs)
  have prev: "getPreviousSiblingBlock c0 (sharedRoot ?e) (Some ?block) = Inr None"
    by (simp add: fixture_defs command_defs getBlock_def getChildrenArray_def)
  have fresh: "''new'' \<noteq> block_id ?page" "''new'' \<noteq> ''b1''" by (simp_all add: mkBlock_def)
  have self: "''b1'' \<noteq> block_parent ?block" by (simp add: mkBlock_def)
  from deleteBlock_last_page_child[OF blk par pid pg pty only ed prev fresh self, of h0]
  show ?thesis
    by (simp add: mkBlock_def h0_def BlockType_Paragraph_def YjsEditorKey_text_def) blast
qed

end
